theory Spec2Isabelle
  imports Complex_Main "HOL-Library.Sublist"
begin

section \<open>The frame renderer of mol-gl (src/mol-gl/renderer.ts)\<close>

text \<open>
  The renderer is a closure over mutable locals (\<open>p\<close>, \<open>bgColor\<close>, \<open>clip\<close>,
  \<open>viewport\<close>, \<open>enableWboit\<close>, the WBOIT textures and framebuffers, the global
  uniforms) and over the WebGL context it was created on. The embedding makes the closure
  a record that every operation takes and returns; the WebGL context (extensions, GL
  state, resources, and a log of the clears and draw calls issued) is a field of it.
  JavaScript numbers that the renderer only stores and hands on are \<open>real\<close> (colour
  channels, clip vectors); the coordinates of the viewport, which \<open>setViewport\<close>
  compares with \<open>!==\<close>, are \<open>number\<close>: a real, an infinity or \<open>NaN\<close>.
\<close>

subsection \<open>Vectors, colours and JavaScript arrays\<close>

type_synonym color = nat
type_synonym vec3 = "real \<times> real \<times> real"
type_synonym quat = "real \<times> real \<times> real \<times> real"
type_synonym rgba = "real \<times> real \<times> real \<times> real"

text \<open>
  A JavaScript number where the code compares it: a finite value, one of the two
  infinities, or \<open>NaN\<close>. \<open>a !== b\<close> holds when either side is \<open>NaN\<close> (also
  of \<open>NaN\<close> and itself) and otherwise when the values differ; the two zeros are one
  value to it, and the renderer does no arithmetic on these numbers.
\<close>

datatype number = Num real | Infinity | NegInfinity | NaN

definition strictNotEqual :: "number \<Rightarrow> number \<Rightarrow> bool" where
  "strictNotEqual a b = (a = NaN \<or> b = NaN \<or> a \<noteq> b)"

type_synonym rect = "number \<times> number \<times> number \<times> number"

text \<open>
  Functions of this repository that the renderer calls and that are not under src/:
  \<open>Color.toVec3Normalized\<close> (mol-util/color), the table \<open>Clipping.Type\<close>
  (mol-theme/clipping), \<open>Quat.setAxisAngle (_, axis, degToRad angle)\<close>
  (mol-math) and the rectangle \<open>Viewport ()\<close> returns (mol-canvas3d/camera/util), as
  \<open>(x, y, width, height)\<close>. They are parameters of the model.
\<close>

record externals =
  toVec3Normalized :: "color \<Rightarrow> vec3"
  clippingType :: "string \<Rightarrow> int"
  setAxisAngleDeg :: "vec3 \<Rightarrow> real \<Rightarrow> quat"
  newViewport :: rect

text \<open>
  A JavaScript array is a list of slots; a slot that was never written (a hole) is
  \<open>None\<close>. Writing at an index inside the array replaces the slot; writing at or past
  the end extends the array, leaving holes in between.
\<close>

type_synonym 'a jsarray = "'a option list"

definition store :: "'a jsarray \<Rightarrow> nat \<Rightarrow> 'a \<Rightarrow> 'a jsarray" where
  "store a i v =
     (if i < length a then a[i := Some v]
      else a @ replicate (i - length a) None @ [Some v])"

text \<open>
  Modelled from the spec: \<open>Vec3.toArray (v, out, offset)\<close> and
  \<open>Quat.toArray (q, out, offset)\<close> of mol-math/linear-algebra are not under src/; they
  write the three (four) components of the vector to \<open>out\<close> at \<open>offset\<close>,
  \<open>offset + 1\<close>, ... in this order, which is how the clip descriptors (position,
  rotation-as-quaternion, scale) reach the flat arrays.
\<close>

definition Vec3_toArray :: "vec3 \<Rightarrow> real jsarray \<Rightarrow> nat \<Rightarrow> real jsarray" where
  "Vec3_toArray v out offset =
     (case v of (x, y, z) \<Rightarrow>
        store (store (store out offset x) (offset + 1) y) (offset + 2) z)"

definition Quat_toArray :: "quat \<Rightarrow> real jsarray \<Rightarrow> nat \<Rightarrow> real jsarray" where
  "Quat_toArray q out offset =
     (case q of (x, y, z, w) \<Rightarrow>
        store (store (store (store out offset x) (offset + 1) y) (offset + 2) z) (offset + 3) w)"

subsection \<open>Clip objects: \<open>getClip\<close>\<close>

record clip_object =
  co_type :: string
  co_position :: vec3
  co_axis :: vec3
  co_angle :: real
  co_scale :: vec3

record clip_props =
  cp_variant :: string
  cp_objects :: "clip_object list"

record clip_arrays =
  ca_type :: "int jsarray"
  ca_position :: "real jsarray"
  ca_rotation :: "real jsarray"
  ca_scale :: "real jsarray"

record clip_state =
  clip_variant :: string
  clip_count :: nat
  clip_arr :: clip_arrays

text \<open>The arrays a first call of \<open>getClip\<close> allocates: \<open>new Array (n).fill (v)\<close>.\<close>

definition freshClipArrays :: clip_arrays where
  "freshClipArrays =
     \<lparr> ca_type = replicate 5 (Some 1),
       ca_position = replicate (5 * 3) (Some 0),
       ca_rotation = replicate (5 * 4) (Some 0),
       ca_scale = replicate (5 * 3) (Some 1) \<rparr>"

text \<open>The body of the loop of \<open>getClip\<close>, for the object \<open>p\<close> at index \<open>i\<close>.\<close>

definition getClipStep :: "externals \<Rightarrow> clip_object \<Rightarrow> nat \<Rightarrow> clip_arrays \<Rightarrow> clip_arrays" where
  "getClipStep ex p i a =
     \<lparr> ca_type = store (ca_type a) i (clippingType ex (co_type p)),
       ca_position = Vec3_toArray (co_position p) (ca_position a) (i * 3),
       ca_rotation = Quat_toArray (setAxisAngleDeg ex (co_axis p) (co_angle p)) (ca_rotation a) (i * 4),
       ca_scale = Vec3_toArray (co_scale p) (ca_scale a) (i * 3) \<rparr>"

fun getClipLoop :: "externals \<Rightarrow> clip_object list \<Rightarrow> nat \<Rightarrow> clip_arrays \<Rightarrow> clip_arrays" where
  "getClipLoop ex [] i a = a"
| "getClipLoop ex (p # ps) i a = getClipLoop ex ps (i + 1) (getClipStep ex p i a)"

text \<open>
  \<open>getClip (props, clip?)\<close>: with a previous \<open>clip\<close> its arrays are reused and
  overwritten in place, without one they are allocated.
\<close>

definition getClip :: "externals \<Rightarrow> clip_props \<Rightarrow> clip_state option \<Rightarrow> clip_state" where
  "getClip ex props old =
     \<lparr> clip_variant = cp_variant props,
       clip_count = length (cp_objects props),
       clip_arr = getClipLoop ex (cp_objects props) 0
         (case old of None \<Rightarrow> freshClipArrays | Some c \<Rightarrow> clip_arr c) \<rparr>"

subsection \<open>The WebGL context: extensions, GL state, resources\<close>

text \<open>
  Modelled from the spec: the WebGL context (mol-gl/webgl/context, resources, texture,
  framebuffer) is not under src/. The spec's capability probe reports the float-texture,
  float-color-buffer, depth-texture and multi-draw-buffer extensions; GL state (blend
  mode, cull mode, depth mode, bound target) is one piece of shared mutable state; its
  stats count the live framebuffers and textures. The model keeps what the calls of
  renderer.ts set and read: the capability flags, the clear colour, the blend function,
  the masks, the bound framebuffer, for each framebuffer its colour attachments and its
  draw buffers (a framebuffer draws to \<open>COLOR_ATTACHMENT0\<close> until \<open>drawBuffers\<close>
  says otherwise), the live resources with their counters, and a log of the clears and
  draw calls in the order issued.
\<close>

datatype capability = BLEND | DEPTH_TEST | SCISSOR_TEST | CULL_FACE
datatype factor = ZERO | ONE | SRC_ALPHA | ONE_MINUS_SRC_ALPHA
datatype winding = CW | CCW
datatype face = FRONT | BACK
datatype attachment = COLOR_ATTACHMENT0 | COLOR_ATTACHMENT1

record glstate =
  blendOn :: bool
  depthTestOn :: bool
  scissorTestOn :: bool
  cullFaceOn :: bool
  blendFunc :: "factor \<times> factor \<times> factor \<times> factor"
  clearColorV :: rgba
  depthMaskV :: bool
  colorMaskV :: "bool \<times> bool \<times> bool \<times> bool"
  frontFaceV :: winding
  cullFaceV :: face
  viewportV :: rect
  scissorV :: rect
  boundFramebuffer :: "nat option"

text \<open>
  A drawable, as far as \<open>render\<close> and \<open>renderObject\<close> read it: the five state flags
  and the value cells that decide culling and depth handling (\<open>dRenderMode\<close> is present
  for direct-volume drawables only; \<open>dDoubleSided\<close> and \<open>dFlipSided\<close> may be absent;
  \<open>hasReflection\<close> is read only where \<open>dDoubleSided\<close> is present).
\<close>

record drawable =
  visible :: bool
  pickable :: bool
  opaque :: bool
  writeDepth :: bool
  colorOnly :: bool
  dRenderMode :: "string option"
  dDoubleSided :: "bool option"
  hasReflection :: bool
  dFlipSided :: "bool option"

text \<open>
  The log: \<open>Clear fb texs depth c\<close> is a \<open>gl.clear\<close> on the bound framebuffer \<open>fb\<close>
  (\<open>None\<close> is the default framebuffer) that clears the textures \<open>texs\<close> attached at
  its draw buffers to the colour \<open>c\<close>, and the depth buffer when \<open>depth\<close>;
  \<open>Draw r variant g\<close> is the draw call \<open>r.render (variant, _)\<close> issued in GL
  state \<open>g\<close>; \<open>Resolve a b g\<close> is the full-screen pass of the WBOIT resolve renderable
  sampling the textures \<open>a\<close> and \<open>b\<close>; \<open>Flush\<close> is \<open>gl.flush\<close>.
\<close>

datatype event =
    Clear "nat option" "nat list" bool rgba
  | Draw drawable string glstate
  | Resolve nat nat glstate
  | Flush

record webgl_context =
  drawBuffers :: bool
  textureFloat :: bool
  colorBufferFloat :: bool
  depthTexture :: bool
  fragDepth :: bool
  gl :: glstate
  nextId :: nat
  framebuffers :: "nat list"
  textures :: "nat list"
  framebufferCount :: int
  textureCount :: int
  fbAttach :: "nat \<Rightarrow> attachment \<Rightarrow> nat option"
  fbDrawBufs :: "nat \<Rightarrow> attachment list"
  texSize :: "nat \<Rightarrow> (number \<times> number) option"
  glLog :: "event list"

fun enable :: "capability \<Rightarrow> webgl_context \<Rightarrow> webgl_context" where
  "enable BLEND c = c\<lparr>gl := (gl c)\<lparr>blendOn := True\<rparr>\<rparr>"
| "enable DEPTH_TEST c = c\<lparr>gl := (gl c)\<lparr>depthTestOn := True\<rparr>\<rparr>"
| "enable SCISSOR_TEST c = c\<lparr>gl := (gl c)\<lparr>scissorTestOn := True\<rparr>\<rparr>"
| "enable CULL_FACE c = c\<lparr>gl := (gl c)\<lparr>cullFaceOn := True\<rparr>\<rparr>"

fun disable :: "capability \<Rightarrow> webgl_context \<Rightarrow> webgl_context" where
  "disable BLEND c = c\<lparr>gl := (gl c)\<lparr>blendOn := False\<rparr>\<rparr>"
| "disable DEPTH_TEST c = c\<lparr>gl := (gl c)\<lparr>depthTestOn := False\<rparr>\<rparr>"
| "disable SCISSOR_TEST c = c\<lparr>gl := (gl c)\<lparr>scissorTestOn := False\<rparr>\<rparr>"
| "disable CULL_FACE c = c\<lparr>gl := (gl c)\<lparr>cullFaceOn := False\<rparr>\<rparr>"

definition blendFuncSeparate :: "factor \<Rightarrow> factor \<Rightarrow> factor \<Rightarrow> factor \<Rightarrow> webgl_context \<Rightarrow> webgl_context" where
  "blendFuncSeparate srcRGB dstRGB srcAlpha dstAlpha c =
     c\<lparr>gl := (gl c)\<lparr>blendFunc := (srcRGB, dstRGB, srcAlpha, dstAlpha)\<rparr>\<rparr>"

definition clearColor :: "rgba \<Rightarrow> webgl_context \<Rightarrow> webgl_context" where
  "clearColor col c = c\<lparr>gl := (gl c)\<lparr>clearColorV := col\<rparr>\<rparr>"

definition depthMask :: "bool \<Rightarrow> webgl_context \<Rightarrow> webgl_context" where
  "depthMask b c = c\<lparr>gl := (gl c)\<lparr>depthMaskV := b\<rparr>\<rparr>"

definition colorMask :: "bool \<times> bool \<times> bool \<times> bool \<Rightarrow> webgl_context \<Rightarrow> webgl_context" where
  "colorMask m c = c\<lparr>gl := (gl c)\<lparr>colorMaskV := m\<rparr>\<rparr>"

definition frontFace :: "winding \<Rightarrow> webgl_context \<Rightarrow> webgl_context" where
  "frontFace w c = c\<lparr>gl := (gl c)\<lparr>frontFaceV := w\<rparr>\<rparr>"

definition cullFace :: "face \<Rightarrow> webgl_context \<Rightarrow> webgl_context" where
  "cullFace f c = c\<lparr>gl := (gl c)\<lparr>cullFaceV := f\<rparr>\<rparr>"

text \<open>
  \<open>gl.viewport\<close> and \<open>gl.scissor\<close>: the state keeps the four arguments as they
  were passed.
\<close>

definition glViewport :: "rect \<Rightarrow> webgl_context \<Rightarrow> webgl_context" where
  "glViewport r c = c\<lparr>gl := (gl c)\<lparr>viewportV := r\<rparr>\<rparr>"

definition glScissor :: "rect \<Rightarrow> webgl_context \<Rightarrow> webgl_context" where
  "glScissor r c = c\<lparr>gl := (gl c)\<lparr>scissorV := r\<rparr>\<rparr>"

text \<open>
  \<open>framebuffer.bind ()\<close>, \<open>renderTarget.bind ()\<close>,
  \<open>gl.bindFramebuffer (gl.FRAMEBUFFER, null)\<close> and \<open>ctx.unbindFramebuffer ()\<close>.
\<close>

definition bindFramebuffer :: "nat option \<Rightarrow> webgl_context \<Rightarrow> webgl_context" where
  "bindFramebuffer fb c = c\<lparr>gl := (gl c)\<lparr>boundFramebuffer := fb\<rparr>\<rparr>"

text \<open>The textures a clear of, or a draw to, the bound framebuffer writes.\<close>

definition drawTargets :: "webgl_context \<Rightarrow> nat list" where
  "drawTargets c =
     (case boundFramebuffer (gl c) of
        None \<Rightarrow> []
      | Some f \<Rightarrow> List.map_filter (fbAttach c f) (fbDrawBufs c f))"

text \<open>\<open>gl.clear (mask)\<close>: the colour bit is set in every call of renderer.ts.\<close>

definition glClear :: "bool \<Rightarrow> webgl_context \<Rightarrow> webgl_context" where
  "glClear depthBit c =
     c\<lparr>glLog := glLog c @ [Clear (boundFramebuffer (gl c)) (drawTargets c) depthBit (clearColorV (gl c))]\<rparr>"

definition glFlush :: "webgl_context \<Rightarrow> webgl_context" where
  "glFlush c = c\<lparr>glLog := glLog c @ [Flush]\<rparr>"

text \<open>
  \<open>resources.framebuffer ()\<close> and \<open>resources.texture (...)\<close> hand out a fresh
  object and count it; \<open>destroy ()\<close> deletes it and counts it down (a deleted
  framebuffer that was bound leaves the default framebuffer bound).
\<close>

definition newFramebuffer :: "webgl_context \<Rightarrow> nat \<times> webgl_context" where
  "newFramebuffer c =
     (nextId c,
      c\<lparr>nextId := nextId c + 1,
        framebuffers := framebuffers c @ [nextId c],
        framebufferCount := framebufferCount c + 1,
        fbAttach := (fbAttach c)(nextId c := (\<lambda>_. None)),
        fbDrawBufs := (fbDrawBufs c)(nextId c := [COLOR_ATTACHMENT0])\<rparr>)"

definition destroyFramebuffer :: "nat \<Rightarrow> webgl_context \<Rightarrow> webgl_context" where
  "destroyFramebuffer f c =
     c\<lparr>framebuffers := removeAll f (framebuffers c),
       framebufferCount := framebufferCount c - 1,
       gl := (if boundFramebuffer (gl c) = Some f then (gl c)\<lparr>boundFramebuffer := None\<rparr> else gl c)\<rparr>"

definition newTexture :: "webgl_context \<Rightarrow> nat \<times> webgl_context" where
  "newTexture c =
     (nextId c,
      c\<lparr>nextId := nextId c + 1,
        textures := textures c @ [nextId c],
        textureCount := textureCount c + 1\<rparr>)"

text \<open>\<open>texture?.define (width, height)\<close>: nothing happens on \<open>null\<close>.\<close>

definition defineTexture :: "nat option \<Rightarrow> number \<Rightarrow> number \<Rightarrow> webgl_context \<Rightarrow> webgl_context" where
  "defineTexture t w h c =
     (case t of None \<Rightarrow> c | Some i \<Rightarrow> c\<lparr>texSize := (texSize c)(i := Some (w, h))\<rparr>)"

text \<open>
  \<open>texture?.attachFramebuffer (framebuffer, attachment)\<close> binds the framebuffer and
  attaches the texture to it; nothing happens on \<open>null\<close>.
\<close>

definition attachFramebuffer :: "nat option \<Rightarrow> nat \<Rightarrow> attachment \<Rightarrow> webgl_context \<Rightarrow> webgl_context" where
  "attachFramebuffer t f a c =
     (case t of
        None \<Rightarrow> c
      | Some i \<Rightarrow> (bindFramebuffer (Some f) c)\<lparr>fbAttach := (fbAttach c)(f := (fbAttach c f)(a := Some i))\<rparr>)"

text \<open>\<open>drawBuffers.drawBuffers ([...])\<close> sets the draw buffers of the bound framebuffer.\<close>

definition setDrawBuffers :: "attachment list \<Rightarrow> webgl_context \<Rightarrow> webgl_context" where
  "setDrawBuffers bufs c =
     (case boundFramebuffer (gl c) of
        None \<Rightarrow> c
      | Some f \<Rightarrow> c\<lparr>fbDrawBufs := (fbDrawBufs c)(f := bufs)\<rparr>)"

subsection \<open>The renderer's state\<close>

text \<open>
  \<open>props\<close> is the \<open>Partial<RendererProps>\<close> that \<open>create\<close> and \<open>setProps\<close>
  take, with the two properties whose handling reaches the clear colour and the clip
  arrays; the other properties only set uniforms of their own. \<open>renderer\<close> holds the
  locals of \<open>Renderer.create\<close> that its operations share.
\<close>

record props =
  pr_backgroundColor :: "color option"
  pr_clip :: "clip_props option"

record renderer =
  ctx :: webgl_context
  p_backgroundColor :: color
  p_clip :: clip_props
  bgColor :: vec3
  clip :: clip_state
  enableWboit :: bool
  wboitATexture :: "nat option"
  wboitBTexture :: "nat option"
  evaluateWboitRenderable :: "(nat \<times> nat) option"
  wboitFramebuffers :: "nat list"
  viewport :: rect
  uViewportHeight :: number
  uViewport :: rect
  uFogColor :: vec3
  uRenderWboit :: int
  uTransparentBackground :: bool

datatype error = TypeError

text \<open>The defaults of \<open>RendererParams\<close>: black background, no clip objects.\<close>

definition defaultBackgroundColor :: color where
  "defaultBackgroundColor = 0x000000"

definition defaultClip :: clip_props where
  "defaultClip = \<lparr> cp_variant = ''instance'', cp_objects = [] \<rparr>"

text \<open>
  \<open>enableWboit ? resources.texture (...) : null\<close>, followed by
  \<open>texture?.define (viewport.width, viewport.height)\<close>.
\<close>

definition wboitTexture :: "bool \<Rightarrow> rect \<Rightarrow> webgl_context \<Rightarrow> nat option \<times> webgl_context" where
  "wboitTexture en vp c =
     (case vp of (x, y, width, height) \<Rightarrow>
        if en then
          (case newTexture c of (t, c') \<Rightarrow> (Some t, defineTexture (Some t) width height c'))
        else (None, defineTexture None width height c))"

text \<open>
  \<open>getEvaluateWboitRenderable (ctx, wboitATexture!, wboitBTexture!)\<close>: the resolve
  renderable keeps the two textures it samples; it allocates no framebuffer and no
  texture.
\<close>

definition getEvaluateWboitRenderable :: "nat option \<Rightarrow> nat option \<Rightarrow> (nat \<times> nat) option" where
  "getEvaluateWboitRenderable ta tb =
     (case (ta, tb) of (Some a, Some b) \<Rightarrow> Some (a, b) | _ \<Rightarrow> None)"

text \<open>
  \<open>Renderer.create (ctx, props)\<close>, lines 166-274: the capability decision, the two
  float textures, the resolve renderable, then the framebuffers: one, and a second one
  with multi-draw-buffer support (both textures on the first), or two more without it
  (one texture on each of the first two).
\<close>

definition create :: "externals \<Rightarrow> webgl_context \<Rightarrow> props \<Rightarrow> renderer" where
  "create ex c0 props =
     (let backgroundColor = (case pr_backgroundColor props of None \<Rightarrow> defaultBackgroundColor | Some v \<Rightarrow> v);
          clipProps = (case pr_clip props of None \<Rightarrow> defaultClip | Some v \<Rightarrow> v);
          vp = newViewport ex;
          en = (textureFloat c0 \<and> colorBufferFloat c0 \<and> depthTexture c0);
          (ta, c1) = wboitTexture en vp c0;
          (tb, c2) = wboitTexture en vp c1;
          ev = (if en then getEvaluateWboitRenderable ta tb else None);
          (f0, c3) = newFramebuffer c2;
          (fbs, c4) =
            (if drawBuffers c0 then
               (let (f1, c31) = newFramebuffer c3;
                    c32 = setDrawBuffers [COLOR_ATTACHMENT0, COLOR_ATTACHMENT1] (bindFramebuffer (Some f0) c31);
                    c33 = attachFramebuffer ta f0 COLOR_ATTACHMENT0 c32;
                    c34 = attachFramebuffer tb f0 COLOR_ATTACHMENT1 c33
                in ([f0, f1], c34))
             else
               (let (f1, c31) = newFramebuffer c3;
                    (f2, c32) = newFramebuffer c31;
                    c33 = attachFramebuffer ta f0 COLOR_ATTACHMENT0 c32;
                    c34 = attachFramebuffer tb f1 COLOR_ATTACHMENT0 c33
                in ([f0, f1, f2], c34)))
      in \<lparr> ctx = c4,
           p_backgroundColor = backgroundColor,
           p_clip = clipProps,
           bgColor = toVec3Normalized ex backgroundColor,
           clip = getClip ex clipProps None,
           enableWboit = en,
           wboitATexture = ta,
           wboitBTexture = tb,
           evaluateWboitRenderable = ev,
           wboitFramebuffers = fbs,
           viewport = vp,
           uViewportHeight = (case vp of (x, y, width, height) \<Rightarrow> height),
           uViewport = vp,
           uFogColor = toVec3Normalized ex backgroundColor,
           uRenderWboit = 0,
           uTransparentBackground = False \<rparr>)"

subsection \<open>\<open>renderObject\<close> and \<open>render\<close>\<close>

text \<open>\<open>variant === 'color'\<close> and \<open>variant[0] === 'p'\<close> on the variant's name.\<close>

definition isColor :: "string \<Rightarrow> bool" where
  "isColor variant = (variant = ''color'')"

definition isPick :: "string \<Rightarrow> bool" where
  "isPick variant = (case variant of [] \<Rightarrow> False | ch # _ \<Rightarrow> ch = CHR ''p'')"

text \<open>
  \<open>renderObject\<close>, lines 276-356. The guard returns before anything is touched. The
  updates of the drawable's defines, the program switch and the upload of the global
  uniforms are bookkeeping between the guard and the GL state and are left out; the GL
  state set before the draw call and the draw call itself are as in the source.
\<close>

definition renderObject :: "drawable \<Rightarrow> string \<Rightarrow> webgl_context \<Rightarrow> webgl_context" where
  "renderObject r variant c =
     (if \<not> visible r \<or> (\<not> pickable r \<and> isPick variant) then c
      else
        (let c1 =
           (case dRenderMode r of
              Some mode \<Rightarrow>
                (let c2 = cullFace BACK (frontFace CW (enable CULL_FACE c))
                 in if mode = ''volume'' \<or> \<not> fragDepth c
                    then depthMask False (disable DEPTH_TEST c2)
                    else depthMask (writeDepth r) (enable DEPTH_TEST c2))
            | None \<Rightarrow>
                (let c2 = enable DEPTH_TEST c;
                     c3 = (case dDoubleSided r of
                             Some ds \<Rightarrow>
                               if ds \<or> hasReflection r then disable CULL_FACE c2
                               else enable CULL_FACE c2
                           | None \<Rightarrow> disable CULL_FACE c2);
                     c4 = (case dFlipSided r of
                             Some fs \<Rightarrow>
                               if fs then cullFace FRONT (frontFace CW c3)
                               else cullFace BACK (frontFace CCW c3)
                           | None \<Rightarrow> cullFace BACK (frontFace CCW c3))
                 in depthMask (writeDepth r) c4))
         in c1\<lparr>glLog := glLog c1 @ [Draw r variant (gl c1)]\<rparr>))"

text \<open>
  One loop of \<open>render\<close>: \<open>for (i = 0; i < renderables.length; ++i)\<close>, calling
  \<open>renderObject\<close> on the renderables that pass the loop's test.
\<close>

fun renderLoop :: "(drawable \<Rightarrow> bool) \<Rightarrow> string \<Rightarrow> drawable list \<Rightarrow> webgl_context \<Rightarrow> webgl_context" where
  "renderLoop test variant [] c = c"
| "renderLoop test variant (r # rs) c =
     renderLoop test variant rs (if test r then renderObject r variant c else c)"

text \<open>The tests of the three loops of each colour path.\<close>

definition isOpaque :: "drawable \<Rightarrow> bool" where
  "isOpaque r = opaque r"

definition isTransparentWriteDepth :: "drawable \<Rightarrow> bool" where
  "isTransparentWriteDepth r = (\<not> opaque r \<and> writeDepth r)"

definition isTransparentNoWriteDepth :: "drawable \<Rightarrow> bool" where
  "isTransparentNoWriteDepth r = (\<not> opaque r \<and> \<not> writeDepth r)"

text \<open>
  Lines 402-425: the state every call starts from, the target, the viewport, the
  optional clear.
\<close>

definition renderBegin :: "nat option \<Rightarrow> string \<Rightarrow> bool \<Rightarrow> bool \<Rightarrow> renderer \<Rightarrow> webgl_context" where
  "renderBegin renderTarget variant clr transparentBackground s =
     (let c0 = enable DEPTH_TEST (colorMask (True, True, True, True)
                 (disable BLEND (enable SCISSOR_TEST (ctx s))));
          c1 = bindFramebuffer renderTarget c0;
          c2 = glScissor (viewport s) (glViewport (viewport s) c1)
      in if clr then
           (let c3 = depthMask True c2;
                c4 = (if isColor variant
                      then (case bgColor s of (r, g, b) \<Rightarrow>
                              clearColor (r, g, b, if transparentBackground then 0 else 1) c3)
                      else clearColor (1, 1, 1, 1) c3)
            in glClear True c4)
         else c2)"

text \<open>Lines 429-447: WBOIT enabled, not the transparent sub-pass.\<close>

definition renderWboitOpaque :: "string \<Rightarrow> drawable list \<Rightarrow> webgl_context \<Rightarrow> webgl_context" where
  "renderWboitOpaque variant renderables c =
     renderLoop isTransparentNoWriteDepth variant renderables
       (renderLoop isTransparentWriteDepth variant renderables
          (renderLoop isOpaque variant renderables c))"

text \<open>
  Lines 449-490: the WBOIT transparent sub-pass on the framebuffer \<open>f0\<close>
  (\<open>wboitFramebuffers[0]\<close>), then the resolve on the target.
\<close>

definition renderWboitTransparent :: "nat \<Rightarrow> nat option \<Rightarrow> (nat \<times> nat) option \<Rightarrow> string \<Rightarrow> drawable list \<Rightarrow> webgl_context \<Rightarrow> webgl_context" where
  "renderWboitTransparent f0 renderTarget ev variant renderables c =
     (let c1 = glClear False (clearColor (0, 0, 0, 1) (bindFramebuffer (Some f0) c));
          c2 = blendFuncSeparate ONE ONE ZERO ONE_MINUS_SRC_ALPHA
                 (enable BLEND (disable DEPTH_TEST c1));
          c3 = renderLoop isTransparentNoWriteDepth variant renderables
                 (renderLoop isTransparentWriteDepth variant renderables
                    (renderLoop isOpaque variant renderables c2));
          c4 = bindFramebuffer renderTarget c3;
          c5 = disable DEPTH_TEST (enable BLEND
                 (blendFuncSeparate ONE_MINUS_SRC_ALPHA SRC_ALPHA ZERO ONE c4))
      in case ev of
           None \<Rightarrow> c5
         | Some (a, b) \<Rightarrow> c5\<lparr>glLog := glLog c5 @ [Resolve a b (gl c5)]\<rparr>)"

text \<open>Lines 493-513: WBOIT not enabled.\<close>

definition renderBlended :: "string \<Rightarrow> drawable list \<Rightarrow> webgl_context \<Rightarrow> webgl_context" where
  "renderBlended variant renderables c =
     (let c1 = renderLoop isOpaque variant renderables c;
          c2 = enable BLEND (blendFuncSeparate SRC_ALPHA ONE_MINUS_SRC_ALPHA ONE ONE c1)
      in renderLoop isTransparentNoWriteDepth variant renderables
           (renderLoop isTransparentWriteDepth variant renderables c2))"

text \<open>Lines 516-522: picking and depth.\<close>

definition renderPickDepth :: "bool \<Rightarrow> string \<Rightarrow> drawable list \<Rightarrow> webgl_context \<Rightarrow> webgl_context" where
  "renderPickDepth renderTransparent variant renderables c =
     (if \<not> renderTransparent
      then renderLoop (\<lambda>r. \<not> colorOnly r) variant renderables c
      else c)"

text \<open>
  \<open>render (renderTarget, group, camera, variant, clear, transparentBackground,
  drawingBufferScale, depthTexture, renderTransparent)\<close>, lines 358-526. The camera, the
  buffer scale and the depth texture only reach uniforms and the shared texture list,
  which the draw calls take as they are; \<open>renderTarget\<close> is the target's framebuffer and
  \<open>renderables\<close> is \<open>group.renderables\<close>. Reading \<open>wboitFramebuffers[0]\<close> of an
  empty array and calling \<open>bind\<close> on it is a TypeError.
\<close>

definition render :: "nat option \<Rightarrow> drawable list \<Rightarrow> string \<Rightarrow> bool \<Rightarrow> bool \<Rightarrow> bool \<Rightarrow> renderer \<Rightarrow> error + renderer" where
  "render renderTarget renderables variant clr transparentBackground renderTransparent s =
     (let s0 = s\<lparr>uTransparentBackground := transparentBackground, uRenderWboit := 0\<rparr>;
          c = renderBegin renderTarget variant clr transparentBackground s
      in if isColor variant then
           (if enableWboit s then
              (if \<not> renderTransparent then
                 Inr (s0\<lparr>ctx := glFlush (renderWboitOpaque variant renderables c)\<rparr>)
               else
                 (case wboitFramebuffers s of
                    [] \<Rightarrow> Inl TypeError
                  | f0 # _ \<Rightarrow>
                      Inr (s0\<lparr>uRenderWboit := 1,
                             ctx := glFlush (renderWboitTransparent f0 renderTarget
                                      (evaluateWboitRenderable s) variant renderables c)\<rparr>)))
            else Inr (s0\<lparr>ctx := glFlush (renderBlended variant renderables c)\<rparr>))
         else Inr (s0\<lparr>ctx := glFlush (renderPickDepth renderTransparent variant renderables c)\<rparr>))"

subsection \<open>The other operations\<close>

text \<open>\<open>clear (transparentBackground)\<close>, lines 529-536.\<close>

definition clear :: "bool \<Rightarrow> renderer \<Rightarrow> renderer" where
  "clear transparentBackground s =
     (let c0 = bindFramebuffer None (ctx s);
          c1 = colorMask (True, True, True, True) (depthMask True (enable SCISSOR_TEST c0));
          c2 = (case bgColor s of (r, g, b) \<Rightarrow>
                  clearColor (r, g, b, if transparentBackground then 0 else 1) c1)
      in s\<lparr>ctx := glClear True c2\<rparr>)"

text \<open>
  \<open>setProps (props)\<close>, lines 539-594, for the background colour and the clip
  parameters: \<open>!==\<close> on the colour (a number), \<open>deepEqual\<close> on the clip parameters.
\<close>

definition setProps :: "externals \<Rightarrow> props \<Rightarrow> renderer \<Rightarrow> renderer" where
  "setProps ex props s =
     (let s1 = (case pr_backgroundColor props of
                  None \<Rightarrow> s
                | Some col \<Rightarrow>
                    if col \<noteq> p_backgroundColor s
                    then s\<lparr>p_backgroundColor := col,
                           bgColor := toVec3Normalized ex col,
                           uFogColor := toVec3Normalized ex col\<rparr>
                    else s)
      in case pr_clip props of
           None \<Rightarrow> s1
         | Some cl \<Rightarrow>
             if cl \<noteq> p_clip s1
             then s1\<lparr>p_clip := cl, clip := getClip ex cl (Some (clip s1))\<rparr>
             else s1)"

text \<open>
  The test of line 598: \<open>x !== viewport.x || y !== viewport.y || width !== viewport.width
  || height !== viewport.height\<close>.
\<close>

definition viewportChanged :: "number \<Rightarrow> number \<Rightarrow> number \<Rightarrow> number \<Rightarrow> rect \<Rightarrow> bool" where
  "viewportChanged x y width height vp =
     (case vp of (vx, vy, vw, vh) \<Rightarrow>
        strictNotEqual x vx \<or> strictNotEqual y vy \<or>
        strictNotEqual width vw \<or> strictNotEqual height vh)"

text \<open>
  \<open>setViewport (x, y, width, height)\<close>, lines 595-629. \<open>wboitFramebuffers[i].destroy ()\<close>
  on an index past the array is a TypeError.
\<close>

definition setViewport :: "number \<Rightarrow> number \<Rightarrow> number \<Rightarrow> number \<Rightarrow> renderer \<Rightarrow> error + renderer" where
  "setViewport x y width height s =
     (let c0 = glScissor (x, y, width, height) (glViewport (x, y, width, height) (ctx s))
      in if viewportChanged x y width height (viewport s) then
           (let s1 = s\<lparr>viewport := (x, y, width, height),
                       uViewportHeight := height,
                       uViewport := (x, y, width, height)\<rparr>;
                c1 = defineTexture (wboitBTexture s) width height
                       (defineTexture (wboitATexture s) width height c0)
            in if drawBuffers c1 then
                 (case wboitFramebuffers s of
                    [] \<Rightarrow> Inl TypeError
                  | old0 # _ \<Rightarrow>
                      (let (f0, c2) = newFramebuffer (destroyFramebuffer old0 c1);
                           c3 = setDrawBuffers [COLOR_ATTACHMENT0, COLOR_ATTACHMENT1]
                                  (bindFramebuffer (Some f0) c2);
                           c4 = attachFramebuffer (wboitATexture s) f0 COLOR_ATTACHMENT0 c3;
                           c5 = attachFramebuffer (wboitBTexture s) f0 COLOR_ATTACHMENT1 c4
                       in Inr (s1\<lparr>wboitFramebuffers := [f0], ctx := c5\<rparr>)))
               else
                 (case wboitFramebuffers s of
                    old0 # old1 # _ \<Rightarrow>
                      (let (f0, c2) = newFramebuffer (destroyFramebuffer old1 (destroyFramebuffer old0 c1));
                           (f1, c3) = newFramebuffer c2;
                           c4 = attachFramebuffer (wboitATexture s) f0 COLOR_ATTACHMENT0 c3;
                           c5 = attachFramebuffer (wboitBTexture s) f1 COLOR_ATTACHMENT0 c4
                       in Inr (s1\<lparr>wboitFramebuffers := [f0, f1], ctx := c5\<rparr>))
                  | _ \<Rightarrow> Inl TypeError))
         else Inr (s\<lparr>ctx := c0\<rparr>))"

text \<open>\<open>dispose ()\<close>, lines 651-653: the body is the comment \<open>// TODO\<close>.\<close>

definition dispose :: "renderer \<Rightarrow> renderer" where
  "dispose s = s"

text \<open>\<open>stats\<close>, lines 634-650: the counters of the context, as they are.\<close>

record rendererStats =
  st_framebufferCount :: int
  st_textureCount :: int

definition stats :: "renderer \<Rightarrow> rendererStats" where
  "stats s =
     \<lparr> st_framebufferCount = framebufferCount (ctx s),
       st_textureCount = textureCount (ctx s) \<rparr>"

subsection \<open>Sequences of calls\<close>

datatype call =
    Render "nat option" "drawable list" string bool bool bool
  | SetProps props
  | SetViewport number number number number
  | ClearCall bool
  | Dispose

fun doCall :: "externals \<Rightarrow> call \<Rightarrow> renderer \<Rightarrow> error + renderer" where
  "doCall ex (Render renderTarget renderables variant clr tb rt) s =
     render renderTarget renderables variant clr tb rt s"
| "doCall ex (SetProps props) s = Inr (setProps ex props s)"
| "doCall ex (SetViewport x y width height) s = setViewport x y width height s"
| "doCall ex (ClearCall tb) s = Inr (clear tb s)"
| "doCall ex Dispose s = Inr (dispose s)"

fun doCalls :: "externals \<Rightarrow> call list \<Rightarrow> renderer \<Rightarrow> error + renderer" where
  "doCalls ex [] s = Inr s"
| "doCalls ex (k # ks) s =
     (case doCall ex k s of Inl e \<Rightarrow> Inl e | Inr s1 \<Rightarrow> doCalls ex ks s1)"

subsection \<open>Reading the log\<close>

text \<open>
  What a call added to the log, and three views of a log: the drawables of its draw
  calls in order; each draw call's drawable with the blend function in force (\<open>None\<close>
  when blending is disabled); and the events that are not draw calls (clears, the
  resolve pass, flushes).
\<close>

definition newEvents :: "renderer \<Rightarrow> renderer \<Rightarrow> event list" where
  "newEvents s s' = drop (length (glLog (ctx s))) (glLog (ctx s'))"

definition drawnObjects :: "event list \<Rightarrow> drawable list" where
  "drawnObjects es = concat (map (\<lambda>e. case e of Draw r v g \<Rightarrow> [r] | _ \<Rightarrow> []) es)"

definition blendOf :: "glstate \<Rightarrow> (factor \<times> factor \<times> factor \<times> factor) option" where
  "blendOf g = (if blendOn g then Some (blendFunc g) else None)"

definition drawBlend :: "event list \<Rightarrow> (drawable \<times> (factor \<times> factor \<times> factor \<times> factor) option) list" where
  "drawBlend es = concat (map (\<lambda>e. case e of Draw r v g \<Rightarrow> [(r, blendOf g)] | _ \<Rightarrow> []) es)"

definition passEvents :: "event list \<Rightarrow> event list" where
  "passEvents es = filter (\<lambda>e. case e of Draw r v g \<Rightarrow> False | _ \<Rightarrow> True) es"

text \<open>Whether a log has a resolve pass.\<close>

definition hasResolve :: "event list \<Rightarrow> bool" where
  "hasResolve es = list_ex (\<lambda>e. case e of Resolve a b g \<Rightarrow> True | _ \<Rightarrow> False) es"

text \<open>The textures the clears of a log wrote, each with the clear colour.\<close>

definition clearedTextures :: "event list \<Rightarrow> (nat \<times> rgba) list" where
  "clearedTextures es =
     concat (map (\<lambda>e. case e of Clear fb texs d col \<Rightarrow> map (\<lambda>t. (t, col)) texs | _ \<Rightarrow> []) es)"

text \<open>The drawables that pass the guard of \<open>renderObject\<close>.\<close>

definition passesGuard :: "string \<Rightarrow> drawable \<Rightarrow> bool" where
  "passesGuard variant r = (visible r \<and> (pickable r \<or> \<not> isPick variant))"

text \<open>The slots a vector and a quaternion take in a flat array.\<close>

definition slots3 :: "vec3 \<Rightarrow> real jsarray" where
  "slots3 v = (case v of (x, y, z) \<Rightarrow> [Some x, Some y, Some z])"

definition slots4 :: "quat \<Rightarrow> real jsarray" where
  "slots4 q = (case q of (x, y, z, w) \<Rightarrow> [Some x, Some y, Some z, Some w])"

text \<open>
  What holds of every renderer between calls: the capability decision of \<open>create\<close>,
  the extensions it was created with, the clear colour as the normalised background
  colour, a resolve renderable exactly with WBOIT, and enough framebuffers for
  \<open>render\<close> and \<open>setViewport\<close> to index.
\<close>

definition established :: "externals \<Rightarrow> webgl_context \<Rightarrow> renderer \<Rightarrow> bool" where
  "established ex c0 s =
     (enableWboit s = (textureFloat c0 \<and> colorBufferFloat c0 \<and> depthTexture c0) \<and>
      drawBuffers (ctx s) = drawBuffers c0 \<and>
      bgColor s = toVec3Normalized ex (p_backgroundColor s) \<and>
      (evaluateWboitRenderable s \<noteq> None) = enableWboit s \<and>
      (if drawBuffers c0 then 1 else 2) \<le> length (wboitFramebuffers s))"

text \<open>
  A view of what one call added to the log, on the call's result: \<open>observe view s res\<close>
  for the result \<open>res\<close> of a call made in state \<open>s\<close>.
\<close>

definition observe :: "(event list \<Rightarrow> 'a) \<Rightarrow> renderer \<Rightarrow> error + renderer \<Rightarrow> error + 'a" where
  "observe view s res =
     (case res of Inl e \<Rightarrow> Inl e | Inr s' \<Rightarrow> Inr (view (newEvents s s')))"

text \<open>
  Views of the clip arrays by object slot (one entry of \<open>type\<close>, three of
  \<open>position\<close>, four of \<open>rotation\<close>, three of \<open>scale\<close>): the first \<open>n\<close> slots,
  the slots from \<open>n\<close> on, the number of slots of each array, and the slots a list of
  configured objects takes.
\<close>

definition firstSlots :: "nat \<Rightarrow> clip_arrays \<Rightarrow> clip_arrays" where
  "firstSlots n a =
     \<lparr> ca_type = take n (ca_type a), ca_position = take (3 * n) (ca_position a),
       ca_rotation = take (4 * n) (ca_rotation a), ca_scale = take (3 * n) (ca_scale a) \<rparr>"

definition slotsFrom :: "nat \<Rightarrow> clip_arrays \<Rightarrow> clip_arrays" where
  "slotsFrom n a =
     \<lparr> ca_type = drop n (ca_type a), ca_position = drop (3 * n) (ca_position a),
       ca_rotation = drop (4 * n) (ca_rotation a), ca_scale = drop (3 * n) (ca_scale a) \<rparr>"

definition arrayLengths :: "clip_arrays \<Rightarrow> nat \<times> nat \<times> nat \<times> nat" where
  "arrayLengths a =
     (length (ca_type a), length (ca_position a), length (ca_rotation a), length (ca_scale a))"

definition objectSlots :: "externals \<Rightarrow> clip_object list \<Rightarrow> clip_arrays" where
  "objectSlots ex ps =
     \<lparr> ca_type = map (\<lambda>p. Some (clippingType ex (co_type p))) ps,
       ca_position = concat (map (\<lambda>p. slots3 (co_position p)) ps),
       ca_rotation = concat (map (\<lambda>p. slots4 (setAxisAngleDeg ex (co_axis p) (co_angle p))) ps),
       ca_scale = concat (map (\<lambda>p. slots3 (co_scale p)) ps) \<rparr>"

text \<open>
  Where the accumulation textures are between calls: the two textures \<open>create\<close>
  allocated (none without the capabilities), and at the draw buffers of
  \<open>wboitFramebuffers[0]\<close> both of them with multi-draw-buffer support, the first of
  them without.
\<close>

definition attached :: "webgl_context \<Rightarrow> renderer \<Rightarrow> bool" where
  "attached c0 s =
     (wboitATexture s =
        (if textureFloat c0 \<and> colorBufferFloat c0 \<and> depthTexture c0
         then Some (nextId c0) else None) \<and>
      wboitBTexture s =
        (if textureFloat c0 \<and> colorBufferFloat c0 \<and> depthTexture c0
         then Some (Suc (nextId c0)) else None) \<and>
      (case wboitFramebuffers s of
         [] \<Rightarrow> False
       | f0 # _ \<Rightarrow>
           drawTargets (bindFramebuffer (Some f0) (ctx s)) =
             List.map_filter id
               (if drawBuffers (ctx s) then [wboitATexture s, wboitBTexture s]
                else [wboitATexture s])))"


subsection \<open>Sample inputs\<close>

text \<open>
  Inputs for the closed instances below. The sample externals follow the library the
  renderer is built on: a colour is \<open>0xRRGGBB\<close> and each channel is divided by 255;
  the clip types are numbered from \<open>none = 0\<close>; the sample rotations are by 0 or
  180 degrees about a unit axis, whose quaternions are \<open>(0, 0, 0, 1)\<close> and
  \<open>(x, y, z, 0)\<close>; a new viewport is the zero rectangle.
\<close>

definition sampleExternals :: externals where
  "sampleExternals =
     \<lparr> toVec3Normalized = (\<lambda>c. (real ((c div 65536) mod 256) / 255,
                                  real ((c div 256) mod 256) / 255,
                                  real (c mod 256) / 255)),
       clippingType = (\<lambda>t. if t = ''plane'' then 1 else if t = ''sphere'' then 2
                            else if t = ''cube'' then 3 else if t = ''cylinder'' then 4
                            else if t = ''infiniteCone'' then 5 else 0),
       setAxisAngleDeg = (\<lambda>axis angle. case axis of (x, y, z) \<Rightarrow>
                            if angle = 180 then (x, y, z, 0) else (0, 0, 0, 1)),
       newViewport = (Num 0, Num 0, Num 0, Num 0) \<rparr>"

text \<open>
  A fresh context: \<open>db\<close> is multi-draw-buffer support, \<open>fl\<close> the float-texture and
  float-color-buffer extensions; the depth-texture extension is present.
\<close>

definition sampleContext :: "bool \<Rightarrow> bool \<Rightarrow> webgl_context" where
  "sampleContext db fl =
     \<lparr> drawBuffers = db, textureFloat = fl, colorBufferFloat = fl, depthTexture = True,
       fragDepth = True,
       gl = \<lparr> blendOn = False, depthTestOn = False, scissorTestOn = False, cullFaceOn = False,
              blendFunc = (ONE, ZERO, ONE, ZERO), clearColorV = (0, 0, 0, 0),
              depthMaskV = True, colorMaskV = (True, True, True, True),
              frontFaceV = CCW, cullFaceV = BACK,
              viewportV = (Num 0, Num 0, Num 0, Num 0),
              scissorV = (Num 0, Num 0, Num 0, Num 0), boundFramebuffer = None \<rparr>,
       nextId = 0, framebuffers = [], textures = [], framebufferCount = 0, textureCount = 0,
       fbAttach = (\<lambda>f a. None), fbDrawBufs = (\<lambda>f. [COLOR_ATTACHMENT0]),
       texSize = (\<lambda>t. None), glLog = [] \<rparr>"

definition noProps :: props where
  "noProps = \<lparr> pr_backgroundColor = None, pr_clip = None \<rparr>"

text \<open>A mesh-like drawable with the given \<open>visible\<close>, \<open>opaque\<close> and \<open>writeDepth\<close>.\<close>

definition sampleDrawable :: "bool \<Rightarrow> bool \<Rightarrow> bool \<Rightarrow> drawable" where
  "sampleDrawable vis opq wd =
     \<lparr> visible = vis, pickable = True, opaque = opq, writeDepth = wd, colorOnly = False,
       dRenderMode = None, dDoubleSided = Some False, hasReflection = False,
       dFlipSided = Some False \<rparr>"

definition sampleClipObject :: "string \<Rightarrow> clip_object" where
  "sampleClipObject t =
     \<lparr> co_type = t, co_position = (1, 2, 3), co_axis = (1, 0, 0), co_angle = 0,
       co_scale = (2, 2, 2) \<rparr>"

section \<open>Properties\<close>

subsection \<open>What the loops of \<open>render\<close> log and leave alone\<close>

lemmas gl_ops = blendFuncSeparate_def clearColor_def depthMask_def colorMask_def
  frontFace_def cullFace_def glViewport_def glScissor_def bindFramebuffer_def

lemma renderObject_log:
  "glLog (renderObject r v c) =
     glLog c @ (if passesGuard v r then [Draw r v (gl (renderObject r v c))] else [])"
  by (auto simp: renderObject_def passesGuard_def Let_def gl_ops split: option.splits)

lemma renderObject_gl:
  "blendOn (gl (renderObject r v c)) = blendOn (gl c)"
  "blendFunc (gl (renderObject r v c)) = blendFunc (gl c)"
  "boundFramebuffer (gl (renderObject r v c)) = boundFramebuffer (gl c)"
  "clearColorV (gl (renderObject r v c)) = clearColorV (gl c)"
  by (auto simp: renderObject_def Let_def gl_ops split: option.splits)

lemma renderObject_ctx:
  "drawBuffers (renderObject r v c) = drawBuffers c"
  "textureFloat (renderObject r v c) = textureFloat c"
  "colorBufferFloat (renderObject r v c) = colorBufferFloat c"
  "depthTexture (renderObject r v c) = depthTexture c"
  "fragDepth (renderObject r v c) = fragDepth c"
  "nextId (renderObject r v c) = nextId c"
  "framebuffers (renderObject r v c) = framebuffers c"
  "textures (renderObject r v c) = textures c"
  "framebufferCount (renderObject r v c) = framebufferCount c"
  "textureCount (renderObject r v c) = textureCount c"
  "fbAttach (renderObject r v c) = fbAttach c"
  "fbDrawBufs (renderObject r v c) = fbDrawBufs c"
  "texSize (renderObject r v c) = texSize c"
  by (auto simp: renderObject_def Let_def gl_ops split: option.splits)

lemma renderLoop_gl:
  "blendOn (gl (renderLoop P v rs c)) = blendOn (gl c)"
  "blendFunc (gl (renderLoop P v rs c)) = blendFunc (gl c)"
  "boundFramebuffer (gl (renderLoop P v rs c)) = boundFramebuffer (gl c)"
  "clearColorV (gl (renderLoop P v rs c)) = clearColorV (gl c)"
  by (induction rs arbitrary: c; simp add: renderObject_gl)+

lemma renderLoop_ctx:
  "drawBuffers (renderLoop P v rs c) = drawBuffers c"
  "textureFloat (renderLoop P v rs c) = textureFloat c"
  "colorBufferFloat (renderLoop P v rs c) = colorBufferFloat c"
  "depthTexture (renderLoop P v rs c) = depthTexture c"
  "fragDepth (renderLoop P v rs c) = fragDepth c"
  "nextId (renderLoop P v rs c) = nextId c"
  "framebuffers (renderLoop P v rs c) = framebuffers c"
  "textures (renderLoop P v rs c) = textures c"
  "framebufferCount (renderLoop P v rs c) = framebufferCount c"
  "textureCount (renderLoop P v rs c) = textureCount c"
  "fbAttach (renderLoop P v rs c) = fbAttach c"
  "fbDrawBufs (renderLoop P v rs c) = fbDrawBufs c"
  "texSize (renderLoop P v rs c) = texSize c"
  by (induction rs arbitrary: c; simp add: renderObject_ctx)+

lemma renderLoop_prefix: "prefix (glLog c) (glLog (renderLoop P v rs c))"
proof (induction rs arbitrary: c)
  case Nil
  show ?case by simp
next
  case (Cons r rs)
  have "prefix (glLog c) (glLog (if P r then renderObject r v c else c))"
    by (simp add: renderObject_log)
  also have "prefix \<dots> (glLog (renderLoop P v (r # rs) c))"
    using Cons.IH by simp
  finally show ?case .
qed

lemma drawBlend_append: "drawBlend (xs @ ys) = drawBlend xs @ drawBlend ys"
  by (simp add: drawBlend_def)

lemma drawnObjects_append: "drawnObjects (xs @ ys) = drawnObjects xs @ drawnObjects ys"
  by (simp add: drawnObjects_def)

lemma passEvents_append: "passEvents (xs @ ys) = passEvents xs @ passEvents ys"
  by (simp add: passEvents_def)

lemma clearedTextures_append: "clearedTextures (xs @ ys) = clearedTextures xs @ clearedTextures ys"
  by (simp add: clearedTextures_def)

lemma blendOf_renderObject: "blendOf (gl (renderObject r v c)) = blendOf (gl c)"
  by (simp add: blendOf_def renderObject_gl)

lemma renderLoop_drawBlend:
  "drawBlend (glLog (renderLoop P v rs c)) =
     drawBlend (glLog c) @ map (\<lambda>r. (r, blendOf (gl c))) (filter (\<lambda>r. P r \<and> passesGuard v r) rs)"
proof (induction rs arbitrary: c)
  case Nil
  show ?case by simp
next
  case (Cons r rs)
  show ?case
    by (simp add: Cons.IH renderObject_log drawBlend_append blendOf_renderObject)
       (simp add: drawBlend_def blendOf_renderObject)
qed

lemma renderLoop_drawnObjects:
  "drawnObjects (glLog (renderLoop P v rs c)) =
     drawnObjects (glLog c) @ filter (\<lambda>r. P r \<and> passesGuard v r) rs"
proof (induction rs arbitrary: c)
  case Nil
  show ?case by simp
next
  case (Cons r rs)
  show ?case
    by (simp add: Cons.IH renderObject_log drawnObjects_append)
       (simp add: drawnObjects_def)
qed

lemma renderLoop_passEvents:
  "passEvents (glLog (renderLoop P v rs c)) = passEvents (glLog c)"
proof (induction rs arbitrary: c)
  case Nil
  show ?case by simp
next
  case (Cons r rs)
  show ?case
    by (simp add: Cons.IH renderObject_log passEvents_append)
       (simp add: passEvents_def)
qed

lemma renderLoop_clearedTextures:
  "clearedTextures (glLog (renderLoop P v rs c)) = clearedTextures (glLog c)"
proof (induction rs arbitrary: c)
  case Nil
  show ?case by simp
next
  case (Cons r rs)
  show ?case
    by (simp add: Cons.IH renderObject_log clearedTextures_append)
       (simp add: clearedTextures_def)
qed

lemma newEvents_proj:
  assumes "prefix old new"
  shows "drawBlend new = drawBlend old @ ys \<Longrightarrow> drawBlend (drop (length old) new) = ys"
    and "drawnObjects new = drawnObjects old @ zs \<Longrightarrow> drawnObjects (drop (length old) new) = zs"
    and "passEvents new = passEvents old @ ps \<Longrightarrow> passEvents (drop (length old) new) = ps"
    and "clearedTextures new = clearedTextures old @ cs \<Longrightarrow> clearedTextures (drop (length old) new) = cs"
  using assms
  by (auto simp: prefix_def drawBlend_append drawnObjects_append passEvents_append clearedTextures_append)

lemma renderBegin_gl:
  "blendOn (gl (renderBegin rt v clr tb s)) = False"
  "blendFunc (gl (renderBegin rt v clr tb s)) = blendFunc (gl (ctx s))"
  "boundFramebuffer (gl (renderBegin rt v clr tb s)) = rt"
  by (auto simp: renderBegin_def Let_def gl_ops glClear_def split: prod.splits)

lemma renderBegin_ctx:
  "drawBuffers (renderBegin rt v clr tb s) = drawBuffers (ctx s)"
  "textureFloat (renderBegin rt v clr tb s) = textureFloat (ctx s)"
  "colorBufferFloat (renderBegin rt v clr tb s) = colorBufferFloat (ctx s)"
  "depthTexture (renderBegin rt v clr tb s) = depthTexture (ctx s)"
  "fragDepth (renderBegin rt v clr tb s) = fragDepth (ctx s)"
  "nextId (renderBegin rt v clr tb s) = nextId (ctx s)"
  "framebuffers (renderBegin rt v clr tb s) = framebuffers (ctx s)"
  "textures (renderBegin rt v clr tb s) = textures (ctx s)"
  "framebufferCount (renderBegin rt v clr tb s) = framebufferCount (ctx s)"
  "textureCount (renderBegin rt v clr tb s) = textureCount (ctx s)"
  "fbAttach (renderBegin rt v clr tb s) = fbAttach (ctx s)"
  "fbDrawBufs (renderBegin rt v clr tb s) = fbDrawBufs (ctx s)"
  "texSize (renderBegin rt v clr tb s) = texSize (ctx s)"
  by (auto simp: renderBegin_def Let_def gl_ops glClear_def split: prod.splits)

text \<open>The clear colour \<open>render\<close> asks for.\<close>

lemma renderBegin_log:
  "glLog (renderBegin rt v clr tb s) =
     glLog (ctx s) @
     (if clr then
        [Clear rt (drawTargets (bindFramebuffer rt (ctx s))) True
           (if isColor v
            then (case bgColor s of (r, g, b) \<Rightarrow> (r, g, b, if tb then 0 else 1))
            else (1, 1, 1, 1))]
      else [])"
  by (auto simp: renderBegin_def Let_def gl_ops glClear_def drawTargets_def
      split: prod.splits option.splits)

subsection \<open>The paths of \<open>render\<close>\<close>

lemma isPick_color: "\<not> isPick ''color''"
  by (simp add: isPick_def)

lemma passesGuard_color: "passesGuard ''color'' r = visible r"
  by (simp add: passesGuard_def isPick_color)

lemma glFlush_log: "glLog (glFlush c) = glLog c @ [Flush]"
  by (simp add: glFlush_def)

lemma renderWboitOpaque_prefix: "prefix (glLog c) (glLog (renderWboitOpaque v rs c))"
  unfolding renderWboitOpaque_def
  by (meson renderLoop_prefix prefix_order.trans)

lemma renderBlended_prefix: "prefix (glLog c) (glLog (renderBlended v rs c))"
proof -
  let ?c1 = "renderLoop isOpaque v rs c"
  let ?c2 = "enable BLEND (blendFuncSeparate SRC_ALPHA ONE_MINUS_SRC_ALPHA ONE ONE ?c1)"
  have "prefix (glLog c) (glLog ?c1)" by (rule renderLoop_prefix)
  also have "glLog ?c1 = glLog ?c2" by (simp add: gl_ops)
  also have "prefix (glLog ?c2) (glLog (renderLoop isTransparentWriteDepth v rs ?c2))"
    by (rule renderLoop_prefix)
  also have "prefix \<dots> (glLog (renderBlended v rs c))"
    unfolding renderBlended_def Let_def by (rule renderLoop_prefix)
  finally show ?thesis .
qed

lemma renderWboitTransparent_prefix:
  "prefix (glLog c) (glLog (renderWboitTransparent f0 rt ev v rs c))"
proof -
  let ?c1 = "glClear False (clearColor (0, 0, 0, 1) (bindFramebuffer (Some f0) c))"
  let ?c2 = "blendFuncSeparate ONE ONE ZERO ONE_MINUS_SRC_ALPHA (enable BLEND (disable DEPTH_TEST ?c1))"
  let ?c3 = "renderLoop isTransparentNoWriteDepth v rs
               (renderLoop isTransparentWriteDepth v rs (renderLoop isOpaque v rs ?c2))"
  let ?c5 = "disable DEPTH_TEST (enable BLEND
               (blendFuncSeparate ONE_MINUS_SRC_ALPHA SRC_ALPHA ZERO ONE (bindFramebuffer rt ?c3)))"
  have "prefix (glLog c) (glLog ?c2)" by (simp add: gl_ops glClear_def)
  also have "prefix (glLog ?c2) (glLog ?c3)"
    by (meson renderLoop_prefix prefix_order.trans)
  also have "glLog ?c3 = glLog ?c5" by (simp add: gl_ops)
  also have "prefix (glLog ?c5) (glLog (renderWboitTransparent f0 rt ev v rs c))"
    unfolding renderWboitTransparent_def Let_def by (auto split: option.splits)
  finally show ?thesis .
qed

lemma renderPickDepth_prefix: "prefix (glLog c) (glLog (renderPickDepth rtr v rs c))"
  by (simp add: renderPickDepth_def renderLoop_prefix)

lemma renderBegin_prefix: "prefix (glLog (ctx s)) (glLog (renderBegin rt v clr tb s))"
  by (simp add: renderBegin_log)

lemma render_prefix:
  assumes "render rt rs v clr tb rtr s = Inr s'"
  shows "prefix (glLog (ctx s)) (glLog (ctx s'))"
proof -
  let ?c = "renderBegin rt v clr tb s"
  have pre: "prefix (glLog (ctx s)) (glLog ?c)" by (rule renderBegin_prefix)
  have flush: "\<And>c. prefix (glLog ?c) (glLog c) \<Longrightarrow> prefix (glLog (ctx s)) (glLog (glFlush c))"
    using pre by (metis glFlush_log prefix_order.trans prefixI)
  show ?thesis
    using assms
    by (auto simp: render_def Let_def split: if_splits list.splits
        intro!: flush renderWboitOpaque_prefix renderBlended_prefix
                renderWboitTransparent_prefix renderPickDepth_prefix)
qed

text \<open>The draw calls of the three colour paths, on the whole log.\<close>

lemma renderWboitOpaque_drawnObjects:
  "drawnObjects (glLog (renderWboitOpaque v rs c)) =
     drawnObjects (glLog c) @
     filter (\<lambda>r. isOpaque r \<and> passesGuard v r) rs @
     filter (\<lambda>r. isTransparentWriteDepth r \<and> passesGuard v r) rs @
     filter (\<lambda>r. isTransparentNoWriteDepth r \<and> passesGuard v r) rs"
  by (simp add: renderWboitOpaque_def renderLoop_drawnObjects)

lemma renderBlended_drawnObjects:
  "drawnObjects (glLog (renderBlended v rs c)) =
     drawnObjects (glLog c) @
     filter (\<lambda>r. isOpaque r \<and> passesGuard v r) rs @
     filter (\<lambda>r. isTransparentWriteDepth r \<and> passesGuard v r) rs @
     filter (\<lambda>r. isTransparentNoWriteDepth r \<and> passesGuard v r) rs"
  by (simp add: renderBlended_def Let_def renderLoop_drawnObjects gl_ops)

lemma renderWboitTransparent_drawnObjects:
  "drawnObjects (glLog (renderWboitTransparent f0 rt ev v rs c)) =
     drawnObjects (glLog c) @
     filter (\<lambda>r. isOpaque r \<and> passesGuard v r) rs @
     filter (\<lambda>r. isTransparentWriteDepth r \<and> passesGuard v r) rs @
     filter (\<lambda>r. isTransparentNoWriteDepth r \<and> passesGuard v r) rs"
  by (simp add: renderWboitTransparent_def Let_def renderLoop_drawnObjects gl_ops glClear_def
      drawnObjects_append split: option.splits)
     (simp add: drawnObjects_def)

lemma renderBegin_drawnObjects:
  "drawnObjects (glLog (renderBegin rt v clr tb s)) = drawnObjects (glLog (ctx s))"
  by (simp add: renderBegin_log drawnObjects_append) (simp add: drawnObjects_def)

lemma glFlush_drawnObjects: "drawnObjects (glLog (glFlush c)) = drawnObjects (glLog c)"
  by (simp add: glFlush_log drawnObjects_append) (simp add: drawnObjects_def)

lemma observe_drawnObjects:
  assumes "res = Inr s'" and "prefix (glLog (ctx s)) (glLog (ctx s'))"
    and "drawnObjects (glLog (ctx s')) = drawnObjects (glLog (ctx s)) @ zs"
  shows "observe drawnObjects s res = Inr zs"
  using assms by (simp add: observe_def newEvents_def newEvents_proj)

subsection \<open>C1: the draw order of the colour variant\<close>

lemma render_total:
  assumes "wboitFramebuffers s \<noteq> []"
  shows "\<exists>s'. render rt rs v clr tb rtr s = Inr s'"
  using assms by (auto simp: render_def Let_def split: list.splits)

lemma render_drawnObjects:
  assumes "render rt rs v clr tb rtr s = Inr s'" and "isColor v"
  shows "drawnObjects (glLog (ctx s')) =
     drawnObjects (glLog (ctx s)) @
     filter (\<lambda>r. isOpaque r \<and> passesGuard v r) rs @
     filter (\<lambda>r. isTransparentWriteDepth r \<and> passesGuard v r) rs @
     filter (\<lambda>r. isTransparentNoWriteDepth r \<and> passesGuard v r) rs"
  using assms
  by (auto simp: render_def Let_def glFlush_drawnObjects renderWboitOpaque_drawnObjects
      renderBlended_drawnObjects renderWboitTransparent_drawnObjects renderBegin_drawnObjects
      split: if_splits list.splits)

lemma render_color_draws:
  assumes "wboitFramebuffers s \<noteq> []" and "isColor v"
  shows "observe drawnObjects s (render rt rs v clr tb rtr s) =
     Inr (filter (\<lambda>r. isOpaque r \<and> passesGuard v r) rs @
          filter (\<lambda>r. isTransparentWriteDepth r \<and> passesGuard v r) rs @
          filter (\<lambda>r. isTransparentNoWriteDepth r \<and> passesGuard v r) rs)"
proof -
  obtain s' where r: "render rt rs v clr tb rtr s = Inr s'"
    using render_total [OF assms(1)] by blast
  show ?thesis
    by (rule observe_drawnObjects [OF r render_prefix [OF r] render_drawnObjects [OF r assms(2)]])
qed

text \<open>
  C1. In a render call of the colour variant the draw calls come in three buckets, in
  this order: the visible drawables with \<open>opaque\<close>, then the visible ones without
  \<open>opaque\<close> and with \<open>writeDepth\<close>, then the visible ones with neither; each bucket
  in the order of the scene's list. The sequence is a function of the scene's list
  alone, and a drawable with \<open>visible = false\<close> is in none of the buckets.
\<close>

theorem render_color_draw_order:
  assumes "wboitFramebuffers s \<noteq> []"
  shows "observe drawnObjects s (render rt rs ''color'' clr tb rtr s) =
     Inr (filter (\<lambda>r. opaque r \<and> visible r) rs @
          filter (\<lambda>r. (\<not> opaque r \<and> writeDepth r) \<and> visible r) rs @
          filter (\<lambda>r. (\<not> opaque r \<and> \<not> writeDepth r) \<and> visible r) rs)"
  using render_color_draws [OF assms, of "''color''" rt rs clr tb rtr]
  by (simp add: isColor_def passesGuard_color isOpaque_def isTransparentWriteDepth_def
      isTransparentNoWriteDepth_def)

text \<open>Unfolding the sample inputs and \<open>create\<close> on them.\<close>

lemmas sample_defs = sampleExternals_def sampleContext_def noProps_def sampleDrawable_def

lemmas create_defs = create_def wboitTexture_def newTexture_def newFramebuffer_def
  defineTexture_def attachFramebuffer_def setDrawBuffers_def getEvaluateWboitRenderable_def
  defaultBackgroundColor_def defaultClip_def bindFramebuffer_def

theorem render_color_draw_order_witness:
  "wboitFramebuffers (create sampleExternals (sampleContext True True) noProps) \<noteq> [] \<and>
   observe drawnObjects (create sampleExternals (sampleContext True True) noProps)
     (render None
        [sampleDrawable True False False, sampleDrawable False True True,
         sampleDrawable True False True, sampleDrawable True True True]
        ''color'' True False True
        (create sampleExternals (sampleContext True True) noProps)) =
     Inr [sampleDrawable True True True, sampleDrawable True False True,
          sampleDrawable True False False]"
proof -
  have ne: "wboitFramebuffers (create sampleExternals (sampleContext True True) noProps) \<noteq> []"
    by (simp add: create_defs sample_defs Let_def)
  show ?thesis
    using ne render_color_draw_order [OF ne, of None
        "[sampleDrawable True False False, sampleDrawable False True True,
          sampleDrawable True False True, sampleDrawable True True True]" True False True]
    by (simp add: sampleDrawable_def)
qed

text \<open>
  The sentence of C1 as written ("first every drawable with opaque = true") fails on a
  scene whose only drawable is opaque and hidden: nothing is drawn.
\<close>

theorem hidden_drawable_counterexample:
  "observe drawnObjects (create sampleExternals (sampleContext True True) noProps)
     (render None [sampleDrawable False True True] ''color'' True False False
        (create sampleExternals (sampleContext True True) noProps)) = Inr [] \<and>
   observe drawnObjects (create sampleExternals (sampleContext True True) noProps)
     (render None [sampleDrawable False True True] ''color'' True False False
        (create sampleExternals (sampleContext True True) noProps)) \<noteq>
     Inr (filter (\<lambda>r. opaque r) [sampleDrawable False True True] @
          filter (\<lambda>r. \<not> opaque r \<and> writeDepth r) [sampleDrawable False True True] @
          filter (\<lambda>r. \<not> opaque r \<and> \<not> writeDepth r) [sampleDrawable False True True])"
proof -
  have ne: "wboitFramebuffers (create sampleExternals (sampleContext True True) noProps) \<noteq> []"
    by (simp add: create_defs sample_defs Let_def)
  show ?thesis
    using render_color_draws [OF ne, of "''color''" None "[sampleDrawable False True True]" True False False]
    by (simp add: isColor_def passesGuard_color sampleDrawable_def)
qed

subsection \<open>C2: blending in the colour variant\<close>

lemma renderBlended_drawBlend:
  "drawBlend (glLog (renderBlended v rs c)) =
     drawBlend (glLog c) @
     map (\<lambda>r. (r, blendOf (gl c))) (filter (\<lambda>r. isOpaque r \<and> passesGuard v r) rs) @
     map (\<lambda>r. (r, Some (SRC_ALPHA, ONE_MINUS_SRC_ALPHA, ONE, ONE)))
       (filter (\<lambda>r. isTransparentWriteDepth r \<and> passesGuard v r) rs) @
     map (\<lambda>r. (r, Some (SRC_ALPHA, ONE_MINUS_SRC_ALPHA, ONE, ONE)))
       (filter (\<lambda>r. isTransparentNoWriteDepth r \<and> passesGuard v r) rs)"
  by (simp add: renderBlended_def Let_def renderLoop_drawBlend gl_ops blendOf_def renderLoop_gl)

lemma renderWboitOpaque_drawBlend:
  "drawBlend (glLog (renderWboitOpaque v rs c)) =
     drawBlend (glLog c) @
     map (\<lambda>r. (r, blendOf (gl c))) (filter (\<lambda>r. isOpaque r \<and> passesGuard v r) rs) @
     map (\<lambda>r. (r, blendOf (gl c))) (filter (\<lambda>r. isTransparentWriteDepth r \<and> passesGuard v r) rs) @
     map (\<lambda>r. (r, blendOf (gl c))) (filter (\<lambda>r. isTransparentNoWriteDepth r \<and> passesGuard v r) rs)"
  by (simp add: renderWboitOpaque_def renderLoop_drawBlend blendOf_def renderLoop_gl)

lemma renderBegin_drawBlend:
  "drawBlend (glLog (renderBegin rt v clr tb s)) = drawBlend (glLog (ctx s))"
  by (simp add: renderBegin_log drawBlend_append) (simp add: drawBlend_def)

lemma glFlush_drawBlend: "drawBlend (glLog (glFlush c)) = drawBlend (glLog c)"
  by (simp add: glFlush_log drawBlend_append) (simp add: drawBlend_def)

lemma renderBegin_blendOf: "blendOf (gl (renderBegin rt v clr tb s)) = None"
  by (simp add: blendOf_def renderBegin_gl)

lemma renderBlended_passEvents:
  "passEvents (glLog (renderBlended v rs c)) = passEvents (glLog c)"
  by (simp add: renderBlended_def Let_def renderLoop_passEvents gl_ops)

lemma renderWboitOpaque_passEvents:
  "passEvents (glLog (renderWboitOpaque v rs c)) = passEvents (glLog c)"
  by (simp add: renderWboitOpaque_def renderLoop_passEvents)

lemma renderBegin_passEvents:
  "passEvents (glLog (renderBegin rt v clr tb s)) =
     passEvents (glLog (ctx s)) @
     (if clr then
        [Clear rt (drawTargets (bindFramebuffer rt (ctx s))) True
           (if isColor v
            then (case bgColor s of (r, g, b) \<Rightarrow> (r, g, b, if tb then 0 else 1))
            else (1, 1, 1, 1))]
      else [])"
  by (simp add: renderBegin_log passEvents_append) (simp add: passEvents_def)

lemma glFlush_passEvents: "passEvents (glLog (glFlush c)) = passEvents (glLog c) @ [Flush]"
  by (simp add: glFlush_log passEvents_append) (simp add: passEvents_def)

lemma observe_drawBlend:
  assumes "res = Inr s'" and "prefix (glLog (ctx s)) (glLog (ctx s'))"
    and "drawBlend (glLog (ctx s')) = drawBlend (glLog (ctx s)) @ ys"
  shows "observe drawBlend s res = Inr ys"
  using assms by (simp add: observe_def newEvents_def newEvents_proj)

lemma observe_passEvents:
  assumes "res = Inr s'" and "prefix (glLog (ctx s)) (glLog (ctx s'))"
    and "passEvents (glLog (ctx s')) = passEvents (glLog (ctx s)) @ ps"
  shows "observe passEvents s res = Inr ps"
  using assms by (simp add: observe_def newEvents_def newEvents_proj)

text \<open>The colour paths other than the WBOIT transparent sub-pass.\<close>

lemma render_total_unless_subpass:
  assumes "\<not> (enableWboit s \<and> rtr)"
  shows "\<exists>s'. render rt rs v clr tb rtr s = Inr s'"
  using assms by (cases "enableWboit s") (simp_all add: render_def Let_def)

lemma render_color_unblended_or_blended:
  assumes "\<not> (enableWboit s \<and> rtr)" and "isColor v"
  shows "observe drawBlend s (render rt rs v clr tb rtr s) =
     Inr (map (\<lambda>r. (r, None)) (filter (\<lambda>r. isOpaque r \<and> passesGuard v r) rs) @
          map (\<lambda>r. (r, if enableWboit s then None
                        else Some (SRC_ALPHA, ONE_MINUS_SRC_ALPHA, ONE, ONE)))
            (filter (\<lambda>r. isTransparentWriteDepth r \<and> passesGuard v r) rs) @
          map (\<lambda>r. (r, if enableWboit s then None
                        else Some (SRC_ALPHA, ONE_MINUS_SRC_ALPHA, ONE, ONE)))
            (filter (\<lambda>r. isTransparentNoWriteDepth r \<and> passesGuard v r) rs))"
proof -
  obtain s' where r: "render rt rs v clr tb rtr s = Inr s'"
    using render_total_unless_subpass [OF assms(1)] by blast
  have "drawBlend (glLog (ctx s')) = drawBlend (glLog (ctx s)) @
     (map (\<lambda>r. (r, None)) (filter (\<lambda>r. isOpaque r \<and> passesGuard v r) rs) @
      map (\<lambda>r. (r, if enableWboit s then None
                    else Some (SRC_ALPHA, ONE_MINUS_SRC_ALPHA, ONE, ONE)))
        (filter (\<lambda>r. isTransparentWriteDepth r \<and> passesGuard v r) rs) @
      map (\<lambda>r. (r, if enableWboit s then None
                    else Some (SRC_ALPHA, ONE_MINUS_SRC_ALPHA, ONE, ONE)))
        (filter (\<lambda>r. isTransparentNoWriteDepth r \<and> passesGuard v r) rs))"
    using r assms
    by (auto simp: render_def Let_def glFlush_drawBlend renderWboitOpaque_drawBlend
        renderBlended_drawBlend renderBegin_drawBlend renderBegin_blendOf
        split: if_splits)
  from observe_drawBlend [OF r render_prefix [OF r] this] show ?thesis .
qed

lemma render_color_single_pass:
  assumes "\<not> (enableWboit s \<and> rtr)" and "isColor v"
  shows "observe passEvents s (render rt rs v clr tb rtr s) =
     Inr ((if clr then
             [Clear rt (drawTargets (bindFramebuffer rt (ctx s))) True
                (case bgColor s of (r, g, b) \<Rightarrow> (r, g, b, if tb then 0 else 1))]
           else []) @ [Flush])"
proof -
  obtain s' where r: "render rt rs v clr tb rtr s = Inr s'"
    using render_total_unless_subpass [OF assms(1)] by blast
  have "passEvents (glLog (ctx s')) = passEvents (glLog (ctx s)) @
     ((if clr then
         [Clear rt (drawTargets (bindFramebuffer rt (ctx s))) True
            (case bgColor s of (r, g, b) \<Rightarrow> (r, g, b, if tb then 0 else 1))]
       else []) @ [Flush])"
    using r assms
    by (auto simp: render_def Let_def glFlush_passEvents renderWboitOpaque_passEvents
        renderBlended_passEvents renderBegin_passEvents
        split: if_splits)
  from observe_passEvents [OF r render_prefix [OF r] this] show ?thesis .
qed

text \<open>
  C2. In a colour-variant render call that is not the WBOIT transparent sub-pass, the
  opaque bucket is drawn with blending disabled. Without WBOIT, blending is then
  enabled once, with the one separate blend function \<open>SRC_ALPHA,
  ONE_MINUS_SRC_ALPHA\<close> (RGB) and \<open>ONE, ONE\<close> (alpha), and both transparent buckets
  are drawn with it; with WBOIT (and no transparent sub-pass asked for) the two
  transparent buckets are drawn with blending disabled too. Either way there is no
  extra pass: besides the draw calls, the call issues the optional clear and the flush.
\<close>

theorem render_color_blending:
  assumes "\<not> (enableWboit s \<and> rtr)"
  shows "observe drawBlend s (render rt rs ''color'' clr tb rtr s) =
     Inr (map (\<lambda>r. (r, None)) (filter (\<lambda>r. opaque r \<and> visible r) rs) @
          map (\<lambda>r. (r, if enableWboit s then None
                        else Some (SRC_ALPHA, ONE_MINUS_SRC_ALPHA, ONE, ONE)))
            (filter (\<lambda>r. (\<not> opaque r \<and> writeDepth r) \<and> visible r) rs) @
          map (\<lambda>r. (r, if enableWboit s then None
                        else Some (SRC_ALPHA, ONE_MINUS_SRC_ALPHA, ONE, ONE)))
            (filter (\<lambda>r. (\<not> opaque r \<and> \<not> writeDepth r) \<and> visible r) rs)) \<and>
   observe passEvents s (render rt rs ''color'' clr tb rtr s) =
     Inr ((if clr then
             [Clear rt (drawTargets (bindFramebuffer rt (ctx s))) True
                (case bgColor s of (r, g, b) \<Rightarrow> (r, g, b, if tb then 0 else 1))]
           else []) @ [Flush])"
  using render_color_unblended_or_blended [OF assms, of "''color''" rt rs clr tb]
    render_color_single_pass [OF assms, of "''color''" rt rs clr tb]
  by (simp add: isColor_def passesGuard_color isOpaque_def isTransparentWriteDepth_def
      isTransparentNoWriteDepth_def)

theorem render_color_blending_witness:
  "\<not> (enableWboit (create sampleExternals (sampleContext True False) noProps) \<and> True) \<and>
   observe drawBlend (create sampleExternals (sampleContext True False) noProps)
     (render None
        [sampleDrawable True False False, sampleDrawable True False True,
         sampleDrawable True True True]
        ''color'' False False True
        (create sampleExternals (sampleContext True False) noProps)) =
     Inr [(sampleDrawable True True True, None),
          (sampleDrawable True False True, Some (SRC_ALPHA, ONE_MINUS_SRC_ALPHA, ONE, ONE)),
          (sampleDrawable True False False, Some (SRC_ALPHA, ONE_MINUS_SRC_ALPHA, ONE, ONE))] \<and>
   observe passEvents (create sampleExternals (sampleContext True False) noProps)
     (render None
        [sampleDrawable True False False, sampleDrawable True False True,
         sampleDrawable True True True]
        ''color'' False False True
        (create sampleExternals (sampleContext True False) noProps)) = Inr [Flush]"
proof -
  have en: "\<not> (enableWboit (create sampleExternals (sampleContext True False) noProps) \<and> True)"
    by (simp add: create_defs sample_defs Let_def)
  have en': "\<not> enableWboit (create sampleExternals (sampleContext True False) noProps)"
    using en by simp
  show ?thesis
    using en render_color_blending [OF en, of None
        "[sampleDrawable True False False, sampleDrawable True False True,
          sampleDrawable True True True]" False False]
    by (simp add: sampleDrawable_def en')
qed

text \<open>
  The sentence of C2 as written fails twice. Without WBOIT the bucket without depth
  write is drawn with the same blend function as the bucket with depth write, whose
  RGB factors are \<open>SRC_ALPHA, ONE_MINUS_SRC_ALPHA\<close> and not \<open>ONE, ONE\<close>. With
  WBOIT and no transparent sub-pass asked for, the transparent buckets are drawn with
  blending disabled.
\<close>

theorem one_blend_function_counterexample:
  "observe drawBlend (create sampleExternals (sampleContext True False) noProps)
     (render None [sampleDrawable True False True, sampleDrawable True False False]
        ''color'' False False False
        (create sampleExternals (sampleContext True False) noProps)) =
     Inr [(sampleDrawable True False True, Some (SRC_ALPHA, ONE_MINUS_SRC_ALPHA, ONE, ONE)),
          (sampleDrawable True False False, Some (SRC_ALPHA, ONE_MINUS_SRC_ALPHA, ONE, ONE))] \<and>
   observe drawBlend (create sampleExternals (sampleContext True True) noProps)
     (render None [sampleDrawable True False True, sampleDrawable True False False]
        ''color'' False False False
        (create sampleExternals (sampleContext True True) noProps)) =
     Inr [(sampleDrawable True False True, None), (sampleDrawable True False False, None)]"
proof -
  have off: "\<not> enableWboit (create sampleExternals (sampleContext True False) noProps)"
    by (simp add: create_defs sample_defs Let_def)
  have on: "enableWboit (create sampleExternals (sampleContext True True) noProps)"
    by (simp add: create_defs sample_defs Let_def)
  have a: "\<not> (enableWboit (create sampleExternals (sampleContext True False) noProps) \<and> False)"
    by simp
  have b: "\<not> (enableWboit (create sampleExternals (sampleContext True True) noProps) \<and> False)"
    by simp
  show ?thesis
    using render_color_unblended_or_blended [OF a, of "''color''" None
        "[sampleDrawable True False True, sampleDrawable True False False]" False False]
      render_color_unblended_or_blended [OF b, of "''color''" None
        "[sampleDrawable True False True, sampleDrawable True False False]" False False]
    by (simp add: isColor_def passesGuard_color isOpaque_def isTransparentWriteDepth_def
        isTransparentNoWriteDepth_def sampleDrawable_def off on)
qed

subsection \<open>What the calls keep\<close>

lemma defineTexture_fields:
  "gl (defineTexture t w h c) = gl c"
  "drawBuffers (defineTexture t w h c) = drawBuffers c"
  "textureFloat (defineTexture t w h c) = textureFloat c"
  "colorBufferFloat (defineTexture t w h c) = colorBufferFloat c"
  "depthTexture (defineTexture t w h c) = depthTexture c"
  "nextId (defineTexture t w h c) = nextId c"
  "framebuffers (defineTexture t w h c) = framebuffers c"
  "textures (defineTexture t w h c) = textures c"
  "framebufferCount (defineTexture t w h c) = framebufferCount c"
  "textureCount (defineTexture t w h c) = textureCount c"
  "fbAttach (defineTexture t w h c) = fbAttach c"
  "fbDrawBufs (defineTexture t w h c) = fbDrawBufs c"
  "glLog (defineTexture t w h c) = glLog c"
  by (simp_all add: defineTexture_def split: option.splits)

lemma attachFramebuffer_fields:
  "viewportV (gl (attachFramebuffer t f a c)) = viewportV (gl c)"
  "scissorV (gl (attachFramebuffer t f a c)) = scissorV (gl c)"
  "drawBuffers (attachFramebuffer t f a c) = drawBuffers c"
  "textureFloat (attachFramebuffer t f a c) = textureFloat c"
  "colorBufferFloat (attachFramebuffer t f a c) = colorBufferFloat c"
  "depthTexture (attachFramebuffer t f a c) = depthTexture c"
  "nextId (attachFramebuffer t f a c) = nextId c"
  "framebuffers (attachFramebuffer t f a c) = framebuffers c"
  "textures (attachFramebuffer t f a c) = textures c"
  "framebufferCount (attachFramebuffer t f a c) = framebufferCount c"
  "textureCount (attachFramebuffer t f a c) = textureCount c"
  "fbDrawBufs (attachFramebuffer t f a c) = fbDrawBufs c"
  "glLog (attachFramebuffer t f a c) = glLog c"
  by (simp_all add: attachFramebuffer_def bindFramebuffer_def split: option.splits)

lemma setDrawBuffers_fields:
  "gl (setDrawBuffers bufs c) = gl c"
  "drawBuffers (setDrawBuffers bufs c) = drawBuffers c"
  "textureFloat (setDrawBuffers bufs c) = textureFloat c"
  "colorBufferFloat (setDrawBuffers bufs c) = colorBufferFloat c"
  "depthTexture (setDrawBuffers bufs c) = depthTexture c"
  "nextId (setDrawBuffers bufs c) = nextId c"
  "framebuffers (setDrawBuffers bufs c) = framebuffers c"
  "textures (setDrawBuffers bufs c) = textures c"
  "framebufferCount (setDrawBuffers bufs c) = framebufferCount c"
  "textureCount (setDrawBuffers bufs c) = textureCount c"
  "fbAttach (setDrawBuffers bufs c) = fbAttach c"
  "glLog (setDrawBuffers bufs c) = glLog c"
  by (simp_all add: setDrawBuffers_def split: option.splits)

lemma destroyFramebuffer_fields:
  "viewportV (gl (destroyFramebuffer f c)) = viewportV (gl c)"
  "scissorV (gl (destroyFramebuffer f c)) = scissorV (gl c)"
  "drawBuffers (destroyFramebuffer f c) = drawBuffers c"
  "textureFloat (destroyFramebuffer f c) = textureFloat c"
  "colorBufferFloat (destroyFramebuffer f c) = colorBufferFloat c"
  "depthTexture (destroyFramebuffer f c) = depthTexture c"
  "nextId (destroyFramebuffer f c) = nextId c"
  "framebuffers (destroyFramebuffer f c) = removeAll f (framebuffers c)"
  "textures (destroyFramebuffer f c) = textures c"
  "framebufferCount (destroyFramebuffer f c) = framebufferCount c - 1"
  "textureCount (destroyFramebuffer f c) = textureCount c"
  "fbAttach (destroyFramebuffer f c) = fbAttach c"
  "fbDrawBufs (destroyFramebuffer f c) = fbDrawBufs c"
  "glLog (destroyFramebuffer f c) = glLog c"
  by (simp_all add: destroyFramebuffer_def)

lemmas op_fields = defineTexture_fields attachFramebuffer_fields setDrawBuffers_fields
  destroyFramebuffer_fields

lemma renderPaths_ctx:
  "drawBuffers (renderWboitOpaque v rs c) = drawBuffers c"
  "framebuffers (renderWboitOpaque v rs c) = framebuffers c"
  "textures (renderWboitOpaque v rs c) = textures c"
  "framebufferCount (renderWboitOpaque v rs c) = framebufferCount c"
  "textureCount (renderWboitOpaque v rs c) = textureCount c"
  "drawBuffers (renderBlended v rs c) = drawBuffers c"
  "framebuffers (renderBlended v rs c) = framebuffers c"
  "textures (renderBlended v rs c) = textures c"
  "framebufferCount (renderBlended v rs c) = framebufferCount c"
  "textureCount (renderBlended v rs c) = textureCount c"
  "drawBuffers (renderPickDepth rtr v rs c) = drawBuffers c"
  "framebuffers (renderPickDepth rtr v rs c) = framebuffers c"
  "textures (renderPickDepth rtr v rs c) = textures c"
  "framebufferCount (renderPickDepth rtr v rs c) = framebufferCount c"
  "textureCount (renderPickDepth rtr v rs c) = textureCount c"
  "drawBuffers (renderWboitTransparent f0 rt ev v rs c) = drawBuffers c"
  "framebuffers (renderWboitTransparent f0 rt ev v rs c) = framebuffers c"
  "textures (renderWboitTransparent f0 rt ev v rs c) = textures c"
  "framebufferCount (renderWboitTransparent f0 rt ev v rs c) = framebufferCount c"
  "textureCount (renderWboitTransparent f0 rt ev v rs c) = textureCount c"
  by (simp_all add: renderWboitOpaque_def renderBlended_def renderPickDepth_def
      renderWboitTransparent_def Let_def gl_ops glClear_def renderLoop_ctx
      split: option.splits prod.splits)

text \<open>
  \<open>render\<close> changes the context and the two uniforms it sets, and of the context
  neither the extensions nor the resources.
\<close>

lemma render_cases:
  assumes "render rt rs v clr tb rtr s = Inr s'"
  obtains c u where "s' = s\<lparr>uTransparentBackground := tb, uRenderWboit := u, ctx := c\<rparr>"
      "drawBuffers c = drawBuffers (ctx s)" "framebuffers c = framebuffers (ctx s)"
      "textures c = textures (ctx s)" "framebufferCount c = framebufferCount (ctx s)"
      "textureCount c = textureCount (ctx s)"
  using assms
  by (auto simp: render_def Let_def glFlush_def renderPaths_ctx renderBegin_ctx
      split: if_splits list.splits)

lemma create_established: "established ex c0 (create ex c0 pr)"
  by (auto simp: established_def create_def wboitTexture_def newTexture_def
      newFramebuffer_def getEvaluateWboitRenderable_def op_fields gl_ops Let_def
      split: prod.splits)

lemma render_established:
  assumes "established ex c0 s" and "render rt rs v clr tb rtr s = Inr s'"
  shows "established ex c0 s'"
  by (rule render_cases [OF assms(2)]) (use assms(1) in \<open>simp add: established_def\<close>)

lemma setProps_established:
  assumes "established ex c0 s"
  shows "established ex c0 (setProps ex pr s)"
  using assms
  by (auto simp: established_def setProps_def Let_def split: option.splits if_splits)

lemma clear_established:
  assumes "established ex c0 s"
  shows "established ex c0 (clear tb s)"
  using assms by (simp add: established_def clear_def Let_def gl_ops glClear_def split: prod.splits)

text \<open>
  The test of \<open>setViewport\<close> fails only on the stored rectangle itself, and never
  on a rectangle with a \<open>NaN\<close>.
\<close>

lemma viewportChanged_iff:
  "viewportChanged x y w h vp =
     (x = NaN \<or> y = NaN \<or> w = NaN \<or> h = NaN \<or> vp \<noteq> (x, y, w, h))"
  by (cases vp) (auto simp: viewportChanged_def strictNotEqual_def)

text \<open>The three ways through \<open>setViewport\<close>.\<close>

lemma setViewport_cases:
  assumes "setViewport x y w h s = Inr s'"
  obtains
    (same) "\<not> viewportChanged x y w h (viewport s)"
      "s' = s\<lparr>ctx := glScissor (x, y, w, h) (glViewport (x, y, w, h) (ctx s))\<rparr>"
  | (multi) old0 rest where "viewportChanged x y w h (viewport s)" "drawBuffers (ctx s)"
      "wboitFramebuffers s = old0 # rest"
      "wboitFramebuffers s' = [nextId (ctx s)]"
      "framebuffers (ctx s') = removeAll old0 (framebuffers (ctx s)) @ [nextId (ctx s)]"
      "nextId (ctx s') = Suc (nextId (ctx s))"
  | (single) old0 old1 rest where "viewportChanged x y w h (viewport s)" "\<not> drawBuffers (ctx s)"
      "wboitFramebuffers s = old0 # old1 # rest"
      "wboitFramebuffers s' = [nextId (ctx s), Suc (nextId (ctx s))]"
      "framebuffers (ctx s') =
         removeAll old1 (removeAll old0 (framebuffers (ctx s))) @ [nextId (ctx s), Suc (nextId (ctx s))]"
      "nextId (ctx s') = Suc (Suc (nextId (ctx s)))"
proof (cases "viewportChanged x y w h (viewport s)")
  case False
  with assms same show ?thesis by (simp add: setViewport_def Let_def)
next
  case diff: True
  show ?thesis
  proof (cases "drawBuffers (ctx s)")
    case True
    with assms diff obtain old0 rest where fbs: "wboitFramebuffers s = old0 # rest"
      by (auto simp: setViewport_def Let_def op_fields gl_ops split: list.splits)
    show ?thesis
      by (rule multi [OF diff True fbs])
         (use assms diff True fbs in
           \<open>auto simp: setViewport_def Let_def op_fields gl_ops newFramebuffer_def\<close>)
  next
    case False
    with assms diff obtain old0 old1 rest where fbs: "wboitFramebuffers s = old0 # old1 # rest"
      by (auto simp: setViewport_def Let_def op_fields gl_ops split: list.splits)
    show ?thesis
      by (rule single [OF diff False fbs])
         (use assms diff False fbs in
           \<open>auto simp: setViewport_def Let_def op_fields gl_ops newFramebuffer_def\<close>)
  qed
qed

text \<open>
  \<open>setViewport\<close> leaves the settings and the textures alone, takes the rectangle as
  the viewport, and keeps the counters: it destroys as many framebuffers as it creates.
\<close>

lemma setViewport_keeps:
  assumes "setViewport x y w h s = Inr s'"
  shows "enableWboit s' = enableWboit s"
    and "bgColor s' = bgColor s"
    and "p_backgroundColor s' = p_backgroundColor s"
    and "wboitATexture s' = wboitATexture s"
    and "wboitBTexture s' = wboitBTexture s"
    and "evaluateWboitRenderable s' = evaluateWboitRenderable s"
    and "viewport s' = (x, y, w, h)"
    and "viewportV (gl (ctx s')) = (x, y, w, h)"
    and "scissorV (gl (ctx s')) = (x, y, w, h)"
    and "drawBuffers (ctx s') = drawBuffers (ctx s)"
    and "framebufferCount (ctx s') = framebufferCount (ctx s)"
    and "textures (ctx s') = textures (ctx s)"
    and "textureCount (ctx s') = textureCount (ctx s)"
    and "glLog (ctx s') = glLog (ctx s)"
  using assms
  by (auto simp: setViewport_def Let_def op_fields gl_ops newFramebuffer_def
      viewportChanged_iff [of x y w h "viewport s"]
      split: if_splits list.splits)

lemma setViewport_established:
  assumes "established ex c0 s" and "setViewport x y w h s = Inr s'"
  shows "established ex c0 s'"
proof (cases rule: setViewport_cases [OF assms(2)])
  case 1
  with assms(1) show ?thesis by (simp add: established_def gl_ops)
next
  case (2 old0 rest)
  with assms(1) setViewport_keeps [OF assms(2)] show ?thesis by (simp add: established_def)
next
  case (3 old0 old1 rest)
  with assms(1) setViewport_keeps [OF assms(2)] show ?thesis by (simp add: established_def)
qed

lemma setViewport_total:
  assumes "established ex c0 s"
  shows "\<exists>s'. setViewport x y w h s = Inr s'"
proof (cases "wboitFramebuffers s")
  case Nil
  with assms show ?thesis by (simp add: established_def split: if_splits)
next
  case (Cons f0 fs)
  show ?thesis
  proof (cases fs)
    case Nil
    with Cons assms have "drawBuffers (ctx s)"
      by (simp add: established_def split: if_splits)
    with Cons show ?thesis
      by (simp add: setViewport_def Let_def op_fields gl_ops split: prod.splits)
  next
    case (Cons f1 fs')
    with \<open>wboitFramebuffers s = f0 # fs\<close> show ?thesis
      by (simp add: setViewport_def Let_def split: prod.splits)
  qed
qed

lemma established_nonempty:
  assumes "established ex c0 s"
  shows "wboitFramebuffers s \<noteq> []"
  using assms by (auto simp: established_def split: if_splits)

lemma doCall_established:
  assumes "established ex c0 s" and "doCall ex k s = Inr s'"
  shows "established ex c0 s'"
  using assms
  by (cases k)
     (auto simp: dispose_def
       intro: render_established setProps_established clear_established setViewport_established)

lemma doCall_total:
  assumes "established ex c0 s"
  shows "\<exists>s'. doCall ex k s = Inr s'"
  using setViewport_total [OF assms] render_total [OF established_nonempty [OF assms]]
  by (cases k) auto

lemma doCalls_established:
  assumes "established ex c0 s" and "doCalls ex ks s = Inr s'"
  shows "established ex c0 s'"
  using assms
proof (induction ks arbitrary: s)
  case Nil
  then show ?case by simp
next
  case (Cons k ks)
  then show ?case
    by (auto split: sum.splits dest: doCall_established)
qed

lemma doCalls_total:
  assumes "established ex c0 s"
  shows "\<exists>s'. doCalls ex ks s = Inr s'"
  using assms
proof (induction ks arbitrary: s)
  case Nil
  show ?case by simp
next
  case (Cons k ks)
  obtain s1 where k: "doCall ex k s = Inr s1"
    using doCall_total [OF Cons.prems] by blast
  from Cons.IH [OF doCall_established [OF Cons.prems k]] k show ?case by simp
qed

subsection \<open>C6: picking and depth\<close>

lemma renderPickDepth_drawnObjects:
  "drawnObjects (glLog (renderPickDepth rtr v rs c)) =
     drawnObjects (glLog c) @
     (if rtr then [] else filter (\<lambda>r. \<not> colorOnly r \<and> passesGuard v r) rs)"
  by (simp add: renderPickDepth_def renderLoop_drawnObjects)

lemma render_pick_depth_drawnObjects:
  assumes "render rt rs v clr tb rtr s = Inr s'" and "\<not> isColor v"
  shows "drawnObjects (glLog (ctx s')) =
     drawnObjects (glLog (ctx s)) @
     (if rtr then [] else filter (\<lambda>r. \<not> colorOnly r \<and> passesGuard v r) rs)"
  using assms
  by (auto simp: render_def Let_def glFlush_drawnObjects renderPickDepth_drawnObjects
      renderBegin_drawnObjects)

lemma render_pick_depth_draws:
  assumes "\<not> isColor v"
  shows "observe drawnObjects s (render rt rs v clr tb rtr s) =
     Inr (if rtr then [] else filter (\<lambda>r. \<not> colorOnly r \<and> passesGuard v r) rs)"
proof -
  obtain s' where r: "render rt rs v clr tb rtr s = Inr s'"
    using assms by (auto simp: render_def Let_def)
  show ?thesis
    by (rule observe_drawnObjects
        [OF r render_prefix [OF r] render_pick_depth_drawnObjects [OF r assms]])
qed

lemma render_draws_pass_guard:
  assumes "render rt rs v clr tb rtr s = Inr s'"
  shows "\<forall>r \<in> set (drawnObjects (newEvents s s')). passesGuard v r"
proof (cases "isColor v")
  case True
  from newEvents_proj(2) [OF render_prefix [OF assms] render_drawnObjects [OF assms True]]
  show ?thesis by (auto simp: newEvents_def)
next
  case False
  from newEvents_proj(2) [OF render_prefix [OF assms] render_pick_depth_drawnObjects [OF assms False]]
  show ?thesis by (auto simp: newEvents_def)
qed

text \<open>
  C6. In a render call of a variant other than colour (picking, depth), nothing is
  drawn in a transparent sub-pass, and otherwise the draw calls are those of the
  drawables that are not \<open>colorOnly\<close>, are visible and, in a picking variant, are
  pickable, in the scene's order. In every variant, every drawable drawn is visible,
  and pickable if the variant is a picking variant.
\<close>

theorem render_pick_depth_skips:
  "(\<not> isColor v \<longrightarrow>
      observe drawnObjects s (render rt rs v clr tb rtr s) =
        Inr (if rtr then []
             else filter (\<lambda>r. \<not> colorOnly r \<and> visible r \<and> (pickable r \<or> \<not> isPick v)) rs)) \<and>
   (\<forall>s'. render rt rs v clr tb rtr s = Inr s' \<longrightarrow>
      (\<forall>r \<in> set (drawnObjects (newEvents s s')). visible r \<and> (isPick v \<longrightarrow> pickable r)))"
proof (intro conjI impI allI)
  assume "\<not> isColor v"
  from render_pick_depth_draws [OF this, of s rt rs clr tb rtr]
  show "observe drawnObjects s (render rt rs v clr tb rtr s) =
        Inr (if rtr then []
             else filter (\<lambda>r. \<not> colorOnly r \<and> visible r \<and> (pickable r \<or> \<not> isPick v)) rs)"
    by (simp add: passesGuard_def)
next
  fix s'
  assume "render rt rs v clr tb rtr s = Inr s'"
  from render_draws_pass_guard [OF this]
  show "\<forall>r \<in> set (drawnObjects (newEvents s s')). visible r \<and> (isPick v \<longrightarrow> pickable r)"
    by (auto simp: passesGuard_def)
qed

theorem render_pick_depth_skips_witness:
  "\<not> isColor ''pickObject'' \<and> isPick ''pickObject'' \<and>
   observe drawnObjects (create sampleExternals (sampleContext True True) noProps)
     (render None
        [sampleDrawable True True True,
         (sampleDrawable True True True)\<lparr>colorOnly := True\<rparr>,
         (sampleDrawable True False True)\<lparr>pickable := False\<rparr>,
         sampleDrawable False True True,
         sampleDrawable True False False]
        ''pickObject'' True False False
        (create sampleExternals (sampleContext True True) noProps)) =
     Inr [sampleDrawable True True True, sampleDrawable True False False] \<and>
   observe drawnObjects (create sampleExternals (sampleContext True True) noProps)
     (render None [sampleDrawable True True True] ''depth'' True False True
        (create sampleExternals (sampleContext True True) noProps)) = Inr []"
  using render_pick_depth_skips [of "''pickObject''"
      "create sampleExternals (sampleContext True True) noProps" None
      "[sampleDrawable True True True,
         (sampleDrawable True True True)\<lparr>colorOnly := True\<rparr>,
         (sampleDrawable True False True)\<lparr>pickable := False\<rparr>,
         sampleDrawable False True True,
         sampleDrawable True False False]" True False False]
    render_pick_depth_skips [of "''depth''"
      "create sampleExternals (sampleContext True True) noProps" None
      "[sampleDrawable True True True]" True False True]
  by (simp add: isColor_def isPick_def sampleDrawable_def)

subsection \<open>C7: a repeated \<open>setViewport\<close>\<close>

lemma glstate_viewport_same:
  "viewportV g = r \<Longrightarrow> scissorV g = r \<Longrightarrow> g\<lparr>viewportV := r, scissorV := r\<rparr> = g"
  by simp






subsection \<open>C10: the framebuffers \<open>create\<close> allocates\<close>

text \<open>
  C10. \<open>Renderer.create\<close> allocates its framebuffers whether or not the capability
  gate holds: the initial one and one more with multi-draw-buffer support, two more
  without. They are live and counted by \<open>stats\<close>. The two float textures and the
  resolve renderable exist exactly when the gate holds.
\<close>

theorem create_allocates_framebuffers:
  "length (wboitFramebuffers (create ex c0 pr)) = (if drawBuffers c0 then 2 else 3) \<and>
   framebuffers (ctx (create ex c0 pr)) = framebuffers c0 @ wboitFramebuffers (create ex c0 pr) \<and>
   st_framebufferCount (stats (create ex c0 pr)) =
     framebufferCount c0 + (if drawBuffers c0 then 2 else 3) \<and>
   st_textureCount (stats (create ex c0 pr)) =
     textureCount c0 + (if textureFloat c0 \<and> colorBufferFloat c0 \<and> depthTexture c0 then 2 else 0) \<and>
   (wboitATexture (create ex c0 pr) \<noteq> None) =
     (textureFloat c0 \<and> colorBufferFloat c0 \<and> depthTexture c0) \<and>
   (wboitBTexture (create ex c0 pr) \<noteq> None) =
     (textureFloat c0 \<and> colorBufferFloat c0 \<and> depthTexture c0) \<and>
   (evaluateWboitRenderable (create ex c0 pr) \<noteq> None) =
     (textureFloat c0 \<and> colorBufferFloat c0 \<and> depthTexture c0)"
  by (auto simp: stats_def create_def wboitTexture_def newTexture_def newFramebuffer_def
      getEvaluateWboitRenderable_def op_fields gl_ops Let_def split: prod.splits)

theorem create_allocates_framebuffers_witness:
  "wboitFramebuffers (create sampleExternals (sampleContext False False) noProps) = [0, 1, 2] \<and>
   framebuffers (ctx (create sampleExternals (sampleContext False False) noProps)) = [0, 1, 2] \<and>
   st_framebufferCount (stats (create sampleExternals (sampleContext False False) noProps)) = 3 \<and>
   st_textureCount (stats (create sampleExternals (sampleContext False False) noProps)) = 0 \<and>
   enableWboit (create sampleExternals (sampleContext False False) noProps) = False"
  using create_allocates_framebuffers [of sampleExternals "sampleContext False False" noProps]
  by (simp add: create_defs sample_defs Let_def)

subsection \<open>C3: the capability gate\<close>

lemma hasResolve_passEvents: "hasResolve (passEvents es) = hasResolve es"
  by (induction es) (auto simp: hasResolve_def passEvents_def split: event.splits)

lemma renderPickDepth_passEvents:
  "passEvents (glLog (renderPickDepth rtr v rs c)) = passEvents (glLog c)"
  by (simp add: renderPickDepth_def renderLoop_passEvents)

text \<open>What the WBOIT transparent sub-pass logs besides its draw calls.\<close>

lemma renderWboitTransparent_passEvents:
  "passEvents (glLog (renderWboitTransparent f0 rt ev v rs c)) =
     passEvents (glLog c) @
     Clear (Some f0) (drawTargets (bindFramebuffer (Some f0) c)) False (0, 0, 0, 1) #
     (case ev of None \<Rightarrow> []
      | Some (a, b) \<Rightarrow> [Resolve a b (gl (renderWboitTransparent f0 rt ev v rs c))])"
  by (simp add: renderWboitTransparent_def Let_def renderLoop_passEvents gl_ops glClear_def
      drawTargets_def passEvents_append split: option.splits)
     (simp add: passEvents_def)

lemma render_subpass_passEvents:
  assumes "render rt rs v clr tb True s = Inr s'" and "enableWboit s" and "isColor v"
  shows "\<exists>f0 fs. wboitFramebuffers s = f0 # fs \<and>
     passEvents (glLog (ctx s')) =
       passEvents (glLog (ctx s)) @
       (if clr then
          [Clear rt (drawTargets (bindFramebuffer rt (ctx s))) True
             (case bgColor s of (r, g, b) \<Rightarrow> (r, g, b, if tb then 0 else 1))]
        else []) @
       Clear (Some f0) (drawTargets (bindFramebuffer (Some f0) (renderBegin rt v clr tb s)))
         False (0, 0, 0, 1) #
       (case evaluateWboitRenderable s of None \<Rightarrow> []
        | Some (a, b) \<Rightarrow> [Resolve a b (gl (renderWboitTransparent f0 rt
            (evaluateWboitRenderable s) v rs (renderBegin rt v clr tb s)))]) @
       [Flush]"
proof -
  from assms obtain f0 fs where fbs: "wboitFramebuffers s = f0 # fs"
    by (auto simp: render_def Let_def split: list.splits)
  with assms have "ctx s' = glFlush (renderWboitTransparent f0 rt
      (evaluateWboitRenderable s) v rs (renderBegin rt v clr tb s))"
    by (auto simp: render_def Let_def)
  then show ?thesis
    using fbs
    by (simp add: glFlush_passEvents renderWboitTransparent_passEvents renderBegin_passEvents
        assms(3))
qed

lemma render_other_passEvents:
  assumes "render rt rs v clr tb rtr s = Inr s'" and "\<not> (enableWboit s \<and> isColor v \<and> rtr)"
  shows "passEvents (glLog (ctx s')) =
       passEvents (glLog (ctx s)) @
       (if clr then
          [Clear rt (drawTargets (bindFramebuffer rt (ctx s))) True
             (if isColor v
              then (case bgColor s of (r, g, b) \<Rightarrow> (r, g, b, if tb then 0 else 1))
              else (1, 1, 1, 1))]
        else []) @ [Flush]"
  using assms
  by (auto simp: render_def Let_def glFlush_passEvents renderWboitOpaque_passEvents
      renderBlended_passEvents renderPickDepth_passEvents renderBegin_passEvents
      split: if_splits)

lemma render_hasResolve:
  assumes "(evaluateWboitRenderable s \<noteq> None) = enableWboit s"
    and "render rt rs v clr tb rtr s = Inr s'"
  shows "hasResolve (newEvents s s') = (enableWboit s \<and> isColor v \<and> rtr)"
proof (cases "enableWboit s \<and> isColor v \<and> rtr")
  case False
  from newEvents_proj(3) [OF render_prefix [OF assms(2)] render_other_passEvents [OF assms(2) False]]
  have "passEvents (newEvents s s') =
      (if clr then
         [Clear rt (drawTargets (bindFramebuffer rt (ctx s))) True
            (if isColor v
             then (case bgColor s of (r, g, b) \<Rightarrow> (r, g, b, if tb then 0 else 1))
             else (1, 1, 1, 1))]
       else []) @ [Flush]"
    by (simp add: newEvents_def)
  then have "\<not> hasResolve (passEvents (newEvents s s'))"
    by (simp add: hasResolve_def)
  with False show ?thesis by (simp add: hasResolve_passEvents)
next
  case True
  then have r: "render rt rs v clr tb True s = Inr s'" and en: "enableWboit s" and col: "isColor v"
    using assms(2) by simp_all
  from render_subpass_passEvents [OF r en col]
  obtain f0 where "passEvents (glLog (ctx s')) =
       passEvents (glLog (ctx s)) @
       (if clr then
          [Clear rt (drawTargets (bindFramebuffer rt (ctx s))) True
             (case bgColor s of (r, g, b) \<Rightarrow> (r, g, b, if tb then 0 else 1))]
        else []) @
       Clear (Some f0) (drawTargets (bindFramebuffer (Some f0) (renderBegin rt v clr tb s)))
         False (0, 0, 0, 1) #
       (case evaluateWboitRenderable s of None \<Rightarrow> []
        | Some (a, b) \<Rightarrow> [Resolve a b (gl (renderWboitTransparent f0 rt
            (evaluateWboitRenderable s) v rs (renderBegin rt v clr tb s)))]) @
       [Flush]"
    by blast
  from newEvents_proj(3) [OF render_prefix [OF assms(2)] this]
  have "hasResolve (passEvents (newEvents s s'))"
    using assms(1) en
    by (auto simp: newEvents_def hasResolve_def split: option.splits)
  with True show ?thesis by (simp add: hasResolve_passEvents)
qed

lemma render_uRenderWboit:
  assumes "render rt rs v clr tb rtr s = Inr s'"
  shows "(uRenderWboit s' = 1) = (enableWboit s \<and> isColor v \<and> rtr)"
  using assms by (auto simp: render_def Let_def split: if_splits list.splits)

text \<open>
  C3. After any sequence of calls on a renderer created on a context \<open>c0\<close>,
  \<open>enableWboit\<close> is still the conjunction of the three capabilities of \<open>c0\<close>; a
  render call returns, and it takes the WBOIT path (it sets \<open>uRenderWboit\<close> to 1 and
  runs the resolve pass) exactly when the three capabilities were present, the variant
  is colour and the transparent sub-pass is asked for; and without the capabilities
  every colour render call is the ordered blending of C2: the opaque bucket unblended,
  the two transparent buckets under the one blend function, a clear at most and a flush.
\<close>

theorem wboit_capability_gate:
  assumes "doCalls ex ks (create ex c0 pr) = Inr s"
  shows "enableWboit s = (textureFloat c0 \<and> colorBufferFloat c0 \<and> depthTexture c0) \<and>
    (\<exists>s'. render rt rs v clr tb rtr s = Inr s' \<and>
       (uRenderWboit s' = 1) =
         ((textureFloat c0 \<and> colorBufferFloat c0 \<and> depthTexture c0) \<and> isColor v \<and> rtr) \<and>
       hasResolve (newEvents s s') =
         ((textureFloat c0 \<and> colorBufferFloat c0 \<and> depthTexture c0) \<and> isColor v \<and> rtr)) \<and>
    (\<not> (textureFloat c0 \<and> colorBufferFloat c0 \<and> depthTexture c0) \<longrightarrow>
       observe drawBlend s (render rt rs ''color'' clr tb rtr s) =
         Inr (map (\<lambda>r. (r, None)) (filter (\<lambda>r. isOpaque r \<and> visible r) rs) @
              map (\<lambda>r. (r, Some (SRC_ALPHA, ONE_MINUS_SRC_ALPHA, ONE, ONE)))
                (filter (\<lambda>r. isTransparentWriteDepth r \<and> visible r) rs) @
              map (\<lambda>r. (r, Some (SRC_ALPHA, ONE_MINUS_SRC_ALPHA, ONE, ONE)))
                (filter (\<lambda>r. isTransparentNoWriteDepth r \<and> visible r) rs)) \<and>
       observe passEvents s (render rt rs ''color'' clr tb rtr s) =
         Inr ((if clr then
                 [Clear rt (drawTargets (bindFramebuffer rt (ctx s))) True
                    (case bgColor s of (r, g, b) \<Rightarrow> (r, g, b, if tb then 0 else 1))]
               else []) @ [Flush]))"
proof -
  have est: "established ex c0 s"
    by (rule doCalls_established [OF create_established assms])
  then have en: "enableWboit s = (textureFloat c0 \<and> colorBufferFloat c0 \<and> depthTexture c0)"
    and ev: "(evaluateWboitRenderable s \<noteq> None) = enableWboit s"
    by (simp_all add: established_def)
  obtain s' where r: "render rt rs v clr tb rtr s = Inr s'"
    using render_total [OF established_nonempty [OF est]] by blast
  have path: "\<exists>s'. render rt rs v clr tb rtr s = Inr s' \<and>
       (uRenderWboit s' = 1) =
         ((textureFloat c0 \<and> colorBufferFloat c0 \<and> depthTexture c0) \<and> isColor v \<and> rtr) \<and>
       hasResolve (newEvents s s') =
         ((textureFloat c0 \<and> colorBufferFloat c0 \<and> depthTexture c0) \<and> isColor v \<and> rtr)"
    using r render_uRenderWboit [OF r] render_hasResolve [OF ev r] en by auto
  have fallback: "observe drawBlend s (render rt rs ''color'' clr tb rtr s) =
         Inr (map (\<lambda>r. (r, None)) (filter (\<lambda>r. isOpaque r \<and> visible r) rs) @
              map (\<lambda>r. (r, Some (SRC_ALPHA, ONE_MINUS_SRC_ALPHA, ONE, ONE)))
                (filter (\<lambda>r. isTransparentWriteDepth r \<and> visible r) rs) @
              map (\<lambda>r. (r, Some (SRC_ALPHA, ONE_MINUS_SRC_ALPHA, ONE, ONE)))
                (filter (\<lambda>r. isTransparentNoWriteDepth r \<and> visible r) rs)) \<and>
       observe passEvents s (render rt rs ''color'' clr tb rtr s) =
         Inr ((if clr then
                 [Clear rt (drawTargets (bindFramebuffer rt (ctx s))) True
                    (case bgColor s of (r, g, b) \<Rightarrow> (r, g, b, if tb then 0 else 1))]
               else []) @ [Flush])"
    if "\<not> (textureFloat c0 \<and> colorBufferFloat c0 \<and> depthTexture c0)"
  proof -
    from that en have off: "\<not> enableWboit s" by simp
    then have n: "\<not> (enableWboit s \<and> rtr)" by simp
    show ?thesis
      using render_color_unblended_or_blended [OF n, of "''color''" rt rs clr tb]
        render_color_single_pass [OF n, of "''color''" rt rs clr tb] off
      by (simp add: isColor_def passesGuard_color)
  qed
  from en path fallback show ?thesis by blast
qed

theorem wboit_capability_gate_witness:
  "\<exists>s. doCalls sampleExternals
          [SetViewport (Num 0) (Num 0) (Num 800) (Num 600),
           Render None [sampleDrawable True False True] ''color'' True False True,
           SetProps \<lparr>pr_backgroundColor = Some 0xFFFFFF, pr_clip = None\<rparr>,
           ClearCall False, Dispose]
          (create sampleExternals (sampleContext True False) noProps) = Inr s \<and>
        \<not> enableWboit s \<and>
        (\<exists>s'. render None [sampleDrawable True False True] ''color'' False False True s = Inr s' \<and>
               uRenderWboit s' \<noteq> 1 \<and> \<not> hasResolve (newEvents s s')) \<and>
        observe drawBlend s
          (render None [sampleDrawable True False True] ''color'' False False True s) =
          Inr [(sampleDrawable True False True, Some (SRC_ALPHA, ONE_MINUS_SRC_ALPHA, ONE, ONE))]"
proof -
  let ?ks = "[SetViewport (Num 0) (Num 0) (Num 800) (Num 600),
           Render None [sampleDrawable True False True] ''color'' True False True,
           SetProps \<lparr>pr_backgroundColor = Some 0xFFFFFF, pr_clip = None\<rparr>,
           ClearCall False, Dispose]"
  obtain s where s: "doCalls sampleExternals ?ks
      (create sampleExternals (sampleContext True False) noProps) = Inr s"
    using doCalls_total [OF create_established] by blast
  show ?thesis
    using s wboit_capability_gate [OF s, of None "[sampleDrawable True False True]" "''color''"
        False False True]
    by (intro exI [of _ s]) (simp add: sample_defs isColor_def isOpaque_def
        isTransparentWriteDepth_def isTransparentNoWriteDepth_def)
qed

subsection \<open>C5: clear colours\<close>

lemma render_after_begin:
  assumes "render rt rs v clr tb rtr s = Inr s'"
  shows "prefix (glLog (renderBegin rt v clr tb s)) (glLog (ctx s'))"
proof -
  have flush: "\<And>c c'. prefix (glLog c) (glLog c') \<Longrightarrow> prefix (glLog c) (glLog (glFlush c'))"
    by (metis glFlush_log prefix_order.trans prefixI)
  show ?thesis
    using assms
    by (auto simp: render_def Let_def split: if_splits list.splits
        intro!: flush renderWboitOpaque_prefix renderBlended_prefix
                renderWboitTransparent_prefix renderPickDepth_prefix)
qed

lemma render_first_event:
  assumes "render rt rs v True tb rtr s = Inr s'"
  shows "take 1 (newEvents s s') =
     [Clear rt (drawTargets (bindFramebuffer rt (ctx s))) True
        (if isColor v
         then (case bgColor s of (r, g, b) \<Rightarrow> (r, g, b, if tb then 0 else 1))
         else (1, 1, 1, 1))]"
proof -
  obtain rest where "glLog (ctx s') = glLog (renderBegin rt v True tb s) @ rest"
    using render_after_begin [OF assms] by (auto simp: prefix_def)
  then show ?thesis
    by (simp add: newEvents_def renderBegin_log)
qed

lemma clear_events:
  "newEvents s (clear tb s) =
     [Clear None [] True (case bgColor s of (r, g, b) \<Rightarrow> (r, g, b, if tb then 0 else 1))]"
  by (simp add: newEvents_def clear_def Let_def gl_ops glClear_def drawTargets_def
      split: prod.splits)

lemma setProps_backgroundColor:
  assumes "bgColor s = toVec3Normalized ex (p_backgroundColor s)"
    and "pr_backgroundColor pr = Some col"
  shows "bgColor (setProps ex pr s) = toVec3Normalized ex col"
    and "p_backgroundColor (setProps ex pr s) = col"
  using assms by (auto simp: setProps_def Let_def split: option.splits)

text \<open>
  C5. On a renderer reached by any sequence of calls: a render call with
  \<open>clear = true\<close> first clears its target, colour and depth, to the normalised
  background colour with alpha 0 when \<open>transparentBackground\<close> and alpha 1 otherwise
  if the variant is colour, and to white \<open>(1, 1, 1, 1)\<close> for every other variant
  (picking, depth); and after \<open>setProps\<close> with \<open>backgroundColor = C\<close>, \<open>clear\<close>
  clears the default framebuffer to the normalised \<open>C\<close> with alpha 1 for
  \<open>clear (false)\<close> and alpha 0 for \<open>clear (true)\<close>.
\<close>

theorem clear_colours:
  assumes "doCalls ex ks (create ex c0 pr) = Inr s"
  shows "(\<forall>s'. render rt rs v True tb rtr s = Inr s' \<longrightarrow>
            take 1 (newEvents s s') =
              [Clear rt (drawTargets (bindFramebuffer rt (ctx s))) True
                 (if isColor v
                  then (case toVec3Normalized ex (p_backgroundColor s) of
                          (r, g, b) \<Rightarrow> (r, g, b, if tb then 0 else 1))
                  else (1, 1, 1, 1))]) \<and>
         (pr_backgroundColor props = Some C \<longrightarrow>
            newEvents (setProps ex props s) (clear tb (setProps ex props s)) =
              [Clear None [] True
                 (case toVec3Normalized ex C of (r, g, b) \<Rightarrow> (r, g, b, if tb then 0 else 1))])"
proof -
  have est: "established ex c0 s"
    by (rule doCalls_established [OF create_established assms])
  then have bg: "bgColor s = toVec3Normalized ex (p_backgroundColor s)"
    by (simp add: established_def)
  show ?thesis
    using render_first_event [of rt rs v tb rtr s] bg
      setProps_backgroundColor(1) [OF bg, of props C]
    by (auto simp: clear_events)
qed

theorem clear_colours_witness:
  "\<exists>s. doCalls sampleExternals
          [SetProps \<lparr>pr_backgroundColor = Some 0xFF0000, pr_clip = None\<rparr>,
           SetViewport (Num 0) (Num 0) (Num 800) (Num 600)]
          (create sampleExternals (sampleContext True True) noProps) = Inr s \<and>
       (\<exists>s'. render None [] ''color'' True True False s = Inr s' \<and>
              take 1 (newEvents s s') = [Clear None [] True (1, 0, 0, 0)]) \<and>
       (\<exists>s'. render None [] ''pickObject'' True False False s = Inr s' \<and>
              take 1 (newEvents s s') = [Clear None [] True (1, 1, 1, 1)]) \<and>
       newEvents (setProps sampleExternals \<lparr>pr_backgroundColor = Some 0x0000FF, pr_clip = None\<rparr> s)
         (clear False (setProps sampleExternals \<lparr>pr_backgroundColor = Some 0x0000FF, pr_clip = None\<rparr> s)) =
         [Clear None [] True (0, 0, 1, 1)] \<and>
       newEvents (setProps sampleExternals \<lparr>pr_backgroundColor = Some 0x0000FF, pr_clip = None\<rparr> s)
         (clear True (setProps sampleExternals \<lparr>pr_backgroundColor = Some 0x0000FF, pr_clip = None\<rparr> s)) =
         [Clear None [] True (0, 0, 1, 0)]"
proof -
  let ?ks = "[SetProps \<lparr>pr_backgroundColor = Some 0xFF0000, pr_clip = None\<rparr>,
           SetViewport (Num 0) (Num 0) (Num 800) (Num 600)]"
  let ?s0 = "create sampleExternals (sampleContext True True) noProps"
  obtain s where s: "doCalls sampleExternals ?ks ?s0 = Inr s"
    using doCalls_total [OF create_established] by blast
  have est: "established sampleExternals (sampleContext True True) s"
    by (rule doCalls_established [OF create_established s])
  obtain s1 where s1: "setViewport (Num 0) (Num 0) (Num 800) (Num 600)
      (setProps sampleExternals \<lparr>pr_backgroundColor = Some 0xFF0000, pr_clip = None\<rparr> ?s0) = Inr s1"
    using setViewport_total [OF setProps_established [OF create_established]] by blast
  with s have "s = s1" by simp
  with setViewport_keeps(3) [OF s1]
  have col: "p_backgroundColor s = 0xFF0000"
    by (simp add: setProps_def create_defs sample_defs Let_def)
  obtain sa where ra: "render None [] ''color'' True True False s = Inr sa"
    using render_total [OF established_nonempty [OF est]] by blast
  obtain sb where rb: "render None [] ''pickObject'' True False False s = Inr sb"
    using render_total [OF established_nonempty [OF est]] by blast
  show ?thesis
    using s ra rb col
      clear_colours [OF s, where rt = None and rs = "[]" and v = "''color''" and tb = True
        and rtr = False and C = "0x0000FF"
        and props = "\<lparr>pr_backgroundColor = Some 0x0000FF, pr_clip = None\<rparr>"]
      clear_colours [OF s, where rt = None and rs = "[]" and v = "''pickObject''" and tb = False
        and rtr = False and C = "0x0000FF"
        and props = "\<lparr>pr_backgroundColor = Some 0x0000FF, pr_clip = None\<rparr>"]
    by (intro exI [of _ s])
       (simp add: sampleExternals_def isColor_def drawTargets_def bindFramebuffer_def)
qed

subsection \<open>C8: the clip arrays\<close>

lemma store_conv: "i \<le> length a \<Longrightarrow> store a i v = take i a @ Some v # drop (Suc i) a"
  by (auto simp: store_def upd_conv_take_nth_drop)

lemma Vec3_toArray_conv:
  "off \<le> length out \<Longrightarrow>
   Vec3_toArray v out off = take off out @ slots3 v @ drop (off + 3) out"
  apply (cases v)
  apply (simp add: Vec3_toArray_def slots3_def store_conv)
  apply (simp add: store_conv min_def add.commute numeral_3_eq_3)
  done

lemma Quat_toArray_conv:
  "off \<le> length out \<Longrightarrow>
   Quat_toArray q out off = take off out @ slots4 q @ drop (off + 4) out"
  apply (cases q)
  apply (simp add: Quat_toArray_def slots4_def store_conv)
  apply (simp add: store_conv min_def add.commute numeral_eq_Suc)
  done

lemma length_slots3: "length (slots3 v) = 3"
  by (cases v) (simp add: slots3_def)

lemma length_slots4: "length (slots4 v) = 4"
  by (cases v) (simp add: slots4_def)

text \<open>
  The loop writes the objects one after the other from slot \<open>i\<close> on: with the slots
  before \<open>i\<close> as \<open>pre\<close>, it leaves \<open>pre\<close>, then the objects' slots, then what the
  array held beyond them.
\<close>

lemma getClipLoop_type:
  "ca_type a = pre @ rest \<Longrightarrow> length pre = i \<Longrightarrow>
   ca_type (getClipLoop ex ps i a) =
     pre @ map (\<lambda>p. Some (clippingType ex (co_type p))) ps @ drop (length ps) rest"
proof (induction ps arbitrary: i a pre rest)
  case Nil
  then show ?case by simp
next
  case (Cons p ps)
  have "ca_type (getClipStep ex p i a) = (pre @ [Some (clippingType ex (co_type p))]) @ drop 1 rest"
    using Cons.prems by (simp add: getClipStep_def store_conv)
  from Cons.IH [OF this] Cons.prems show ?case by simp
qed

lemma getClipLoop_position:
  "ca_position a = pre @ rest \<Longrightarrow> length pre = 3 * i \<Longrightarrow>
   ca_position (getClipLoop ex ps i a) =
     pre @ concat (map (\<lambda>p. slots3 (co_position p)) ps) @ drop (3 * length ps) rest"
proof (induction ps arbitrary: i a pre rest)
  case Nil
  then show ?case by simp
next
  case (Cons p ps)
  have "ca_position (getClipStep ex p i a) = (pre @ slots3 (co_position p)) @ drop 3 rest"
    using Cons.prems by (simp add: getClipStep_def Vec3_toArray_conv mult.commute)
  from Cons.IH [OF this] Cons.prems show ?case by (simp add: add.commute length_slots3)
qed

lemma getClipLoop_scale:
  "ca_scale a = pre @ rest \<Longrightarrow> length pre = 3 * i \<Longrightarrow>
   ca_scale (getClipLoop ex ps i a) =
     pre @ concat (map (\<lambda>p. slots3 (co_scale p)) ps) @ drop (3 * length ps) rest"
proof (induction ps arbitrary: i a pre rest)
  case Nil
  then show ?case by simp
next
  case (Cons p ps)
  have "ca_scale (getClipStep ex p i a) = (pre @ slots3 (co_scale p)) @ drop 3 rest"
    using Cons.prems by (simp add: getClipStep_def Vec3_toArray_conv mult.commute)
  from Cons.IH [OF this] Cons.prems show ?case by (simp add: add.commute length_slots3)
qed

lemma getClipLoop_rotation:
  "ca_rotation a = pre @ rest \<Longrightarrow> length pre = 4 * i \<Longrightarrow>
   ca_rotation (getClipLoop ex ps i a) =
     pre @ concat (map (\<lambda>p. slots4 (setAxisAngleDeg ex (co_axis p) (co_angle p))) ps) @
     drop (4 * length ps) rest"
proof (induction ps arbitrary: i a pre rest)
  case Nil
  then show ?case by simp
next
  case (Cons p ps)
  have "ca_rotation (getClipStep ex p i a) =
      (pre @ slots4 (setAxisAngleDeg ex (co_axis p) (co_angle p))) @ drop 4 rest"
    using Cons.prems by (simp add: getClipStep_def Quat_toArray_conv mult.commute)
  from Cons.IH [OF this] Cons.prems show ?case by (simp add: add.commute length_slots4)
qed

lemma getClip_arrays:
  "clip_arr (getClip ex props old) =
     \<lparr> ca_type = map (\<lambda>p. Some (clippingType ex (co_type p))) (cp_objects props) @
           drop (length (cp_objects props))
             (ca_type (case old of None \<Rightarrow> freshClipArrays | Some c \<Rightarrow> clip_arr c)),
       ca_position = concat (map (\<lambda>p. slots3 (co_position p)) (cp_objects props)) @
           drop (3 * length (cp_objects props))
             (ca_position (case old of None \<Rightarrow> freshClipArrays | Some c \<Rightarrow> clip_arr c)),
       ca_rotation =
           concat (map (\<lambda>p. slots4 (setAxisAngleDeg ex (co_axis p) (co_angle p))) (cp_objects props)) @
           drop (4 * length (cp_objects props))
             (ca_rotation (case old of None \<Rightarrow> freshClipArrays | Some c \<Rightarrow> clip_arr c)),
       ca_scale = concat (map (\<lambda>p. slots3 (co_scale p)) (cp_objects props)) @
           drop (3 * length (cp_objects props))
             (ca_scale (case old of None \<Rightarrow> freshClipArrays | Some c \<Rightarrow> clip_arr c)) \<rparr>"
  using getClipLoop_type [of _ "[]" _ 0 ex "cp_objects props"]
    getClipLoop_position [of _ "[]" _ 0 ex "cp_objects props"]
    getClipLoop_rotation [of _ "[]" _ 0 ex "cp_objects props"]
    getClipLoop_scale [of _ "[]" _ 0 ex "cp_objects props"]
  by (simp add: getClip_def)

lemma length_concat_slots3: "length (concat (map (\<lambda>p. slots3 (f p)) ps)) = 3 * length ps"
  by (induction ps) (simp_all add: length_slots3)

lemma length_concat_slots4: "length (concat (map (\<lambda>p. slots4 (f p)) ps)) = 4 * length ps"
  by (induction ps) (simp_all add: length_slots4)

lemma getClip_views:
  "clip_count (getClip ex props old) = length (cp_objects props)"
  "clip_variant (getClip ex props old) = cp_variant props"
  "firstSlots (length (cp_objects props)) (clip_arr (getClip ex props old)) =
     objectSlots ex (cp_objects props)"
  "slotsFrom (length (cp_objects props)) (clip_arr (getClip ex props old)) =
     slotsFrom (length (cp_objects props))
       (case old of None \<Rightarrow> freshClipArrays | Some c \<Rightarrow> clip_arr c)"
  by (simp_all add: getClip_arrays firstSlots_def slotsFrom_def objectSlots_def
      length_concat_slots3 length_concat_slots4)
     (simp_all add: getClip_def)

lemma slotsFrom_fresh:
  "slotsFrom n freshClipArrays =
     \<lparr> ca_type = replicate (5 - n) (Some 1),
       ca_position = replicate (3 * (5 - n)) (Some 0),
       ca_rotation = replicate (4 * (5 - n)) (Some 0),
       ca_scale = replicate (3 * (5 - n)) (Some 1) \<rparr>"
  by (simp add: slotsFrom_def freshClipArrays_def diff_mult_distrib2)

lemma arrayLengths_getClip:
  "arrayLengths (clip_arr (getClip ex props None)) =
     (max 5 (length (cp_objects props)), 3 * max 5 (length (cp_objects props)),
      4 * max 5 (length (cp_objects props)), 3 * max 5 (length (cp_objects props)))"
  by (simp add: arrayLengths_def getClip_arrays freshClipArrays_def
      length_concat_slots3 length_concat_slots4 max_def)

lemma create_clip:
  "clip (create ex c0 pr) =
     getClip ex (case pr_clip pr of None \<Rightarrow> defaultClip | Some v \<Rightarrow> v) None"
  by (simp add: create_def Let_def split: prod.splits)

lemma setProps_clip:
  "clip (setProps ex props s) =
     (case pr_clip props of
        None \<Rightarrow> clip s
      | Some cl \<Rightarrow> if cl \<noteq> p_clip s then getClip ex cl (Some (clip s)) else clip s)"
  by (simp add: setProps_def Let_def split: option.splits)

text \<open>
  C8. At construction and on every \<open>setProps\<close> that changes the clip parameters, the
  recorded count is the number \<open>n\<close> of configured clip objects and the first
  \<open>n\<close> slots hold them. At construction the arrays have 5 slots (5, 15, 20 and 15
  entries), or \<open>n\<close> slots when more than 5 objects are configured, and the slots
  from \<open>n\<close> on hold the fill values: type 1, position 0, rotation \<open>(0, 0, 0, 0)\<close>,
  scale \<open>(1, 1, 1)\<close>. On \<open>setProps\<close> the arrays are overwritten in place: the slots
  from \<open>n\<close> on are what they were before the call.
\<close>

theorem clip_arrays_update:
  "clip_count (clip (create ex c0 pr)) =
     length (cp_objects (case pr_clip pr of None \<Rightarrow> defaultClip | Some v \<Rightarrow> v)) \<and>
   firstSlots (clip_count (clip (create ex c0 pr))) (clip_arr (clip (create ex c0 pr))) =
     objectSlots ex (cp_objects (case pr_clip pr of None \<Rightarrow> defaultClip | Some v \<Rightarrow> v)) \<and>
   arrayLengths (clip_arr (clip (create ex c0 pr))) =
     (max 5 (clip_count (clip (create ex c0 pr))), 3 * max 5 (clip_count (clip (create ex c0 pr))),
      4 * max 5 (clip_count (clip (create ex c0 pr))), 3 * max 5 (clip_count (clip (create ex c0 pr)))) \<and>
   slotsFrom (clip_count (clip (create ex c0 pr))) (clip_arr (clip (create ex c0 pr))) =
     \<lparr> ca_type = replicate (5 - clip_count (clip (create ex c0 pr))) (Some 1),
       ca_position = replicate (3 * (5 - clip_count (clip (create ex c0 pr)))) (Some 0),
       ca_rotation = replicate (4 * (5 - clip_count (clip (create ex c0 pr)))) (Some 0),
       ca_scale = replicate (3 * (5 - clip_count (clip (create ex c0 pr)))) (Some 1) \<rparr> \<and>
   (pr_clip props = Some cl \<and> cl \<noteq> p_clip s \<longrightarrow>
      clip_count (clip (setProps ex props s)) = length (cp_objects cl) \<and>
      firstSlots (length (cp_objects cl)) (clip_arr (clip (setProps ex props s))) =
        objectSlots ex (cp_objects cl) \<and>
      slotsFrom (length (cp_objects cl)) (clip_arr (clip (setProps ex props s))) =
        slotsFrom (length (cp_objects cl)) (clip_arr (clip s)))"
  by (simp add: create_clip setProps_clip getClip_views slotsFrom_fresh arrayLengths_getClip)

lemma create_p_clip:
  "p_clip (create ex c0 pr) = (case pr_clip pr of None \<Rightarrow> defaultClip | Some v \<Rightarrow> v)"
  by (simp add: create_def Let_def split: prod.splits)

theorem clip_arrays_update_witness:
  "clip_count (clip (create sampleExternals (sampleContext True True)
     \<lparr>pr_backgroundColor = None,
      pr_clip = Some \<lparr>cp_variant = ''instance'',
                       cp_objects = [sampleClipObject ''cube'', sampleClipObject ''sphere'']\<rparr>\<rparr>)) = 2 \<and>
   slotsFrom 2 (clip_arr (clip (create sampleExternals (sampleContext True True)
     \<lparr>pr_backgroundColor = None,
      pr_clip = Some \<lparr>cp_variant = ''instance'',
                       cp_objects = [sampleClipObject ''cube'', sampleClipObject ''sphere'']\<rparr>\<rparr>))) =
     \<lparr> ca_type = replicate 3 (Some 1),
       ca_position = replicate 9 (Some 0),
       ca_rotation = replicate 12 (Some 0),
       ca_scale = replicate 9 (Some 1) \<rparr> \<and>
   (pr_clip \<lparr>pr_backgroundColor = None,
             pr_clip = Some \<lparr>cp_variant = ''instance'', cp_objects = [sampleClipObject ''cylinder'']\<rparr>\<rparr> =
      Some \<lparr>cp_variant = ''instance'', cp_objects = [sampleClipObject ''cylinder'']\<rparr> \<and>
    \<lparr>cp_variant = ''instance'', cp_objects = [sampleClipObject ''cylinder'']\<rparr> \<noteq>
      p_clip (create sampleExternals (sampleContext True True)
        \<lparr>pr_backgroundColor = None,
         pr_clip = Some \<lparr>cp_variant = ''instance'',
                          cp_objects = [sampleClipObject ''cube'', sampleClipObject ''sphere'']\<rparr>\<rparr>)) \<and>
   firstSlots 1 (clip_arr (clip (setProps sampleExternals
       \<lparr>pr_backgroundColor = None,
        pr_clip = Some \<lparr>cp_variant = ''instance'', cp_objects = [sampleClipObject ''cylinder'']\<rparr>\<rparr>
       (create sampleExternals (sampleContext True True)
          \<lparr>pr_backgroundColor = None,
           pr_clip = Some \<lparr>cp_variant = ''instance'',
                            cp_objects = [sampleClipObject ''cube'', sampleClipObject ''sphere'']\<rparr>\<rparr>)))) =
     \<lparr> ca_type = [Some 4], ca_position = [Some 1, Some 2, Some 3],
       ca_rotation = [Some 0, Some 0, Some 0, Some 1], ca_scale = [Some 2, Some 2, Some 2] \<rparr>"
proof -
  let ?two = "\<lparr>pr_backgroundColor = None,
      pr_clip = Some \<lparr>cp_variant = ''instance'',
                       cp_objects = [sampleClipObject ''cube'', sampleClipObject ''sphere'']\<rparr>\<rparr>"
  let ?cl = "\<lparr>cp_variant = ''instance'', cp_objects = [sampleClipObject ''cylinder'']\<rparr>"
  let ?one = "\<lparr>pr_backgroundColor = None, pr_clip = Some ?cl\<rparr>"
  let ?s0 = "create sampleExternals (sampleContext True True) ?two"
  note th = clip_arrays_update [of sampleExternals "sampleContext True True" ?two ?one ?cl ?s0]
  have n: "clip_count (clip ?s0) = 2"
    using th by simp
  have a: "slotsFrom 2 (clip_arr (clip ?s0)) =
     \<lparr> ca_type = replicate 3 (Some 1),
       ca_position = replicate 9 (Some 0),
       ca_rotation = replicate 12 (Some 0),
       ca_scale = replicate 9 (Some 1) \<rparr>"
    using th unfolding n by simp
  have d: "?cl \<noteq> p_clip ?s0"
    by (simp add: create_p_clip)
  have b: "firstSlots 1 (clip_arr (clip (setProps sampleExternals ?one ?s0))) =
     \<lparr> ca_type = [Some 4], ca_position = [Some 1, Some 2, Some 3],
       ca_rotation = [Some 0, Some 0, Some 0, Some 1], ca_scale = [Some 2, Some 2, Some 2] \<rparr>"
    using th d
    by (simp add: objectSlots_def sampleExternals_def sampleClipObject_def slots3_def slots4_def)
  from n a d b show ?thesis by simp
qed

text \<open>
  The sentence of C8 as written fails in three ways. At construction the unused
  rotation slots are \<open>(0, 0, 0, 0)\<close>, not the identity quaternion
  \<open>(0, 0, 0, 1)\<close>. After a \<open>setProps\<close> from two objects (cube, sphere) to one, the
  second slot, beyond the count, still holds the sphere: type 2 and the sphere's
  position, rotation and scale. With six objects configured the arrays have six slots.
\<close>

theorem clip_defaults_counterexample:
  "take 4 (ca_rotation (clip_arr (clip (create sampleExternals (sampleContext True True) noProps)))) =
     [Some 0, Some 0, Some 0, Some 0] \<and>
   take 4 (ca_rotation (clip_arr (clip (create sampleExternals (sampleContext True True) noProps)))) \<noteq>
     [Some 0, Some 0, Some 0, Some 1] \<and>
   ca_type (clip_arr (clip (setProps sampleExternals
       \<lparr>pr_backgroundColor = None,
        pr_clip = Some \<lparr>cp_variant = ''instance'', cp_objects = [sampleClipObject ''cylinder'']\<rparr>\<rparr>
       (create sampleExternals (sampleContext True True)
          \<lparr>pr_backgroundColor = None,
           pr_clip = Some \<lparr>cp_variant = ''instance'',
                            cp_objects = [sampleClipObject ''cube'', sampleClipObject ''sphere'']\<rparr>\<rparr>)))) =
     [Some 4, Some 2, Some 1, Some 1, Some 1] \<and>
   arrayLengths (clip_arr (clip (create sampleExternals (sampleContext True True)
     \<lparr>pr_backgroundColor = None,
      pr_clip = Some \<lparr>cp_variant = ''instance'',
                       cp_objects = replicate 6 (sampleClipObject ''plane'')\<rparr>\<rparr>))) = (6, 18, 24, 18)"
proof -
  let ?two = "\<lparr>pr_backgroundColor = None,
      pr_clip = Some \<lparr>cp_variant = ''instance'',
                       cp_objects = [sampleClipObject ''cube'', sampleClipObject ''sphere'']\<rparr>\<rparr>"
  let ?cl = "\<lparr>cp_variant = ''instance'', cp_objects = [sampleClipObject ''cylinder'']\<rparr>"
  let ?one = "\<lparr>pr_backgroundColor = None, pr_clip = Some ?cl\<rparr>"
  let ?s0 = "create sampleExternals (sampleContext True True) ?two"
  have rot: "ca_rotation (clip_arr (clip (create sampleExternals (sampleContext True True) noProps))) =
      replicate 20 (Some 0)"
    by (simp add: create_clip getClip_arrays noProps_def defaultClip_def freshClipArrays_def)
  have r4: "take 4 (replicate 20 (Some (0::real))) = [Some 0, Some 0, Some 0, Some 0]"
    by (simp add: numeral_eq_Suc)
  have d: "?cl \<noteq> p_clip ?s0"
    by (simp add: create_p_clip)
  have old: "ca_type (clip_arr (clip ?s0)) = [Some 3, Some 2] @ replicate 3 (Some 1)"
    by (simp add: create_clip getClip_arrays freshClipArrays_def sampleExternals_def
        sampleClipObject_def)
  have r3: "replicate 3 (Some (1::int)) = [Some 1, Some 1, Some 1]"
    by (simp add: numeral_eq_Suc)
  have stale: "ca_type (clip_arr (clip (setProps sampleExternals ?one ?s0))) =
      [Some 4, Some 2, Some 1, Some 1, Some 1]"
    using d
    by (simp add: setProps_clip getClip_arrays old r3)
       (simp add: sampleExternals_def sampleClipObject_def)
  have six: "arrayLengths (clip_arr (clip (create sampleExternals (sampleContext True True)
     \<lparr>pr_backgroundColor = None,
      pr_clip = Some \<lparr>cp_variant = ''instance'',
                       cp_objects = replicate 6 (sampleClipObject ''plane'')\<rparr>\<rparr>))) = (6, 18, 24, 18)"
    by (simp add: create_clip arrayLengths_getClip)
  from rot r4 stale six show ?thesis by simp
qed

subsection \<open>The renderer \<open>create\<close> returns\<close>

lemma newFramebuffer_fields:
  "fst (newFramebuffer c) = nextId c"
  "gl (snd (newFramebuffer c)) = gl c"
  "drawBuffers (snd (newFramebuffer c)) = drawBuffers c"
  "nextId (snd (newFramebuffer c)) = Suc (nextId c)"
  "framebuffers (snd (newFramebuffer c)) = framebuffers c @ [nextId c]"
  "textures (snd (newFramebuffer c)) = textures c"
  "fbAttach (snd (newFramebuffer c)) = (fbAttach c)(nextId c := (\<lambda>_. None))"
  "fbDrawBufs (snd (newFramebuffer c)) = (fbDrawBufs c)(nextId c := [COLOR_ATTACHMENT0])"
  "glLog (snd (newFramebuffer c)) = glLog c"
  "framebufferCount (snd (newFramebuffer c)) = framebufferCount c + 1"
  "textureCount (snd (newFramebuffer c)) = textureCount c"
  by (simp_all add: newFramebuffer_def)

lemma wboitTexture_fields:
  "fst (wboitTexture en vp c) = (if en then Some (nextId c) else None)"
  "gl (snd (wboitTexture en vp c)) = gl c"
  "drawBuffers (snd (wboitTexture en vp c)) = drawBuffers c"
  "nextId (snd (wboitTexture en vp c)) = nextId c + (if en then 1 else 0)"
  "framebuffers (snd (wboitTexture en vp c)) = framebuffers c"
  "textures (snd (wboitTexture en vp c)) = textures c @ (if en then [nextId c] else [])"
  "fbAttach (snd (wboitTexture en vp c)) = fbAttach c"
  "fbDrawBufs (snd (wboitTexture en vp c)) = fbDrawBufs c"
  "glLog (snd (wboitTexture en vp c)) = glLog c"
  "framebufferCount (snd (wboitTexture en vp c)) = framebufferCount c"
  "textureCount (snd (wboitTexture en vp c)) = textureCount c + (if en then 1 else 0)"
  by (simp_all add: wboitTexture_def newTexture_def defineTexture_def split: prod.splits)

lemma bindFramebuffer_fields:
  "boundFramebuffer (gl (bindFramebuffer fb c)) = fb"
  "drawBuffers (bindFramebuffer fb c) = drawBuffers c"
  "nextId (bindFramebuffer fb c) = nextId c"
  "framebuffers (bindFramebuffer fb c) = framebuffers c"
  "textures (bindFramebuffer fb c) = textures c"
  "fbAttach (bindFramebuffer fb c) = fbAttach c"
  "fbDrawBufs (bindFramebuffer fb c) = fbDrawBufs c"
  "glLog (bindFramebuffer fb c) = glLog c"
  "framebufferCount (bindFramebuffer fb c) = framebufferCount c"
  "textureCount (bindFramebuffer fb c) = textureCount c"
  by (simp_all add: bindFramebuffer_def)

lemma attach_fields:
  "fbAttach (attachFramebuffer t f a c) =
     (case t of None \<Rightarrow> fbAttach c | Some i \<Rightarrow> (fbAttach c)(f := (fbAttach c f)(a := Some i)))"
  "fbDrawBufs (setDrawBuffers bufs c) =
     (case boundFramebuffer (gl c) of None \<Rightarrow> fbDrawBufs c | Some f \<Rightarrow> (fbDrawBufs c)(f := bufs))"
  by (simp_all add: attachFramebuffer_def setDrawBuffers_def bindFramebuffer_def
      split: option.splits)

lemmas create_simps = create_def Let_def case_prod_beta newFramebuffer_fields
  wboitTexture_fields bindFramebuffer_fields attach_fields op_fields
  getEvaluateWboitRenderable_def

lemma create_fields:
  "enableWboit (create ex c0 pr) = (textureFloat c0 \<and> colorBufferFloat c0 \<and> depthTexture c0)"
  "drawBuffers (ctx (create ex c0 pr)) = drawBuffers c0"
  "glLog (ctx (create ex c0 pr)) = glLog c0"
  "viewport (create ex c0 pr) = newViewport ex"
  "p_backgroundColor (create ex c0 pr) =
     (case pr_backgroundColor pr of None \<Rightarrow> defaultBackgroundColor | Some v \<Rightarrow> v)"
  "framebuffers (ctx (create ex c0 pr)) = framebuffers c0 @ wboitFramebuffers (create ex c0 pr)"
  "framebufferCount (ctx (create ex c0 pr)) = framebufferCount c0 + (if drawBuffers c0 then 2 else 3)"
  "textureCount (ctx (create ex c0 pr)) =
     textureCount c0 + (if textureFloat c0 \<and> colorBufferFloat c0 \<and> depthTexture c0 then 2 else 0)"
  by (simp_all add: create_simps)

lemma create_with_wboit:
  assumes "textureFloat c0" and "colorBufferFloat c0" and "depthTexture c0"
  shows "enableWboit (create ex c0 pr)"
    and "wboitATexture (create ex c0 pr) = Some (nextId c0)"
    and "wboitBTexture (create ex c0 pr) = Some (Suc (nextId c0))"
    and "wboitFramebuffers (create ex c0 pr) =
           (if drawBuffers c0 then [nextId c0 + 2, nextId c0 + 3]
            else [nextId c0 + 2, nextId c0 + 3, nextId c0 + 4])"
    and "textures (ctx (create ex c0 pr)) = textures c0 @ [nextId c0, Suc (nextId c0)]"
    and "nextId (ctx (create ex c0 pr)) = nextId c0 + (if drawBuffers c0 then 4 else 5)"
    and "drawTargets (bindFramebuffer (Some (nextId c0 + 2)) (ctx (create ex c0 pr))) =
           (if drawBuffers c0 then [nextId c0, Suc (nextId c0)] else [nextId c0])"
  using assms
  by (simp_all add: create_simps drawTargets_def)

lemma create_without_wboit:
  assumes "\<not> (textureFloat c0 \<and> colorBufferFloat c0 \<and> depthTexture c0)"
  shows "\<not> enableWboit (create ex c0 pr)"
    and "wboitATexture (create ex c0 pr) = None"
    and "wboitBTexture (create ex c0 pr) = None"
    and "wboitFramebuffers (create ex c0 pr) =
           (if drawBuffers c0 then [nextId c0, nextId c0 + 1]
            else [nextId c0, nextId c0 + 1, nextId c0 + 2])"
    and "textures (ctx (create ex c0 pr)) = textures c0"
    and "nextId (ctx (create ex c0 pr)) = nextId c0 + (if drawBuffers c0 then 2 else 3)"
  using assms
  by (simp_all add: create_simps)

lemma sampleContext_fields:
  "drawBuffers (sampleContext db fl) = db"
  "textureFloat (sampleContext db fl) = fl"
  "colorBufferFloat (sampleContext db fl) = fl"
  "depthTexture (sampleContext db fl) = True"
  "nextId (sampleContext db fl) = 0"
  "framebuffers (sampleContext db fl) = []"
  "textures (sampleContext db fl) = []"
  "framebufferCount (sampleContext db fl) = 0"
  "textureCount (sampleContext db fl) = 0"
  "glLog (sampleContext db fl) = []"
  by (simp_all add: sampleContext_def)

subsection \<open>C9: \<open>dispose\<close>\<close>

text \<open>
  C9 says that \<open>dispose\<close> releases the renderer's GPU resources. The body of
  \<open>dispose\<close> is the comment \<open>// TODO\<close>: on a renderer created with all
  capabilities, the two framebuffers and the two float textures are still live and
  counted after \<open>dispose\<close>.
\<close>

theorem dispose_releases_nothing:
  "framebuffers (ctx (dispose (create sampleExternals (sampleContext True True) noProps))) = [2, 3] \<and>
   textures (ctx (dispose (create sampleExternals (sampleContext True True) noProps))) = [0, 1] \<and>
   wboitFramebuffers (dispose (create sampleExternals (sampleContext True True) noProps)) = [2, 3] \<and>
   wboitATexture (dispose (create sampleExternals (sampleContext True True) noProps)) = Some 0 \<and>
   wboitBTexture (dispose (create sampleExternals (sampleContext True True) noProps)) = Some 1 \<and>
   stats (dispose (create sampleExternals (sampleContext True True) noProps)) =
     \<lparr> st_framebufferCount = 2, st_textureCount = 2 \<rparr>"
  by (simp add: dispose_def stats_def create_fields create_with_wboit sampleContext_fields)

subsection \<open>C4: clearing the accumulation textures\<close>

lemma renderWboitTransparent_clearedTextures:
  "clearedTextures (glLog (renderWboitTransparent f0 rt ev v rs c)) =
     clearedTextures (glLog c) @
     map (\<lambda>t. (t, (0, 0, 0, 1))) (drawTargets (bindFramebuffer (Some f0) c))"
  by (simp add: renderWboitTransparent_def Let_def renderLoop_clearedTextures gl_ops glClear_def
      drawTargets_def clearedTextures_append split: option.splits)
     (simp add: clearedTextures_def)

lemma renderBegin_clearedTextures:
  "clearedTextures (glLog (renderBegin rt v clr tb s)) =
     clearedTextures (glLog (ctx s)) @
     (if clr then
        map (\<lambda>t. (t, if isColor v
                      then (case bgColor s of (r, g, b) \<Rightarrow> (r, g, b, if tb then 0 else 1))
                      else (1, 1, 1, 1)))
          (drawTargets (bindFramebuffer rt (ctx s)))
      else [])"
  by (simp add: renderBegin_log clearedTextures_append) (simp add: clearedTextures_def)

lemma glFlush_clearedTextures: "clearedTextures (glLog (glFlush c)) = clearedTextures (glLog c)"
  by (simp add: glFlush_log clearedTextures_append) (simp add: clearedTextures_def)

lemma drawTargets_renderBegin:
  "drawTargets (bindFramebuffer fb (renderBegin rt v clr tb s)) = drawTargets (bindFramebuffer fb (ctx s))"
  by (simp add: drawTargets_def bindFramebuffer_def renderBegin_ctx split: option.splits)

text \<open>
  The textures the accumulation pass of a WBOIT transparent sub-pass clears: those at
  the draw buffers of \<open>wboitFramebuffers[0]\<close>.
\<close>

lemma render_subpass_cleared:
  assumes "enableWboit s" and "isColor v" and "wboitFramebuffers s = f0 # fs"
  shows "observe clearedTextures s (render rt rs v False tb True s) =
     Inr (map (\<lambda>t. (t, (0, 0, 0, 1))) (drawTargets (bindFramebuffer (Some f0) (ctx s))))"
proof -
  from assms obtain s' where r: "render rt rs v False tb True s = Inr s'"
    and c: "ctx s' = glFlush (renderWboitTransparent f0 rt
      (evaluateWboitRenderable s) v rs (renderBegin rt v False tb s))"
    by (auto simp: render_def Let_def)
  have "clearedTextures (glLog (ctx s')) = clearedTextures (glLog (ctx s)) @
      map (\<lambda>t. (t, (0, 0, 0, 1))) (drawTargets (bindFramebuffer (Some f0) (ctx s)))"
    by (simp add: c glFlush_clearedTextures renderWboitTransparent_clearedTextures
        renderBegin_clearedTextures drawTargets_renderBegin)
  with r render_prefix [OF r] show ?thesis
    by (simp add: observe_def newEvents_def newEvents_proj)
qed

text \<open>
  C4 says that both accumulation textures are cleared to \<open>(0, 0, 0, 1)\<close> before the
  transparent drawables are accumulated, also without multi-draw-buffer support. On a
  renderer created without it (and with the float and depth capabilities), \<open>accumA\<close>
  is texture 0 on framebuffer 2 and \<open>accumB\<close> is texture 1 on framebuffer 3; the
  transparent sub-pass binds and clears framebuffer 2 only, so the one texture cleared
  is \<open>accumA\<close>. With multi-draw-buffer support both are on the one framebuffer
  and both are cleared.
\<close>

theorem accumB_not_cleared:
  "wboitATexture (create sampleExternals (sampleContext False True) noProps) = Some 0 \<and>
   wboitBTexture (create sampleExternals (sampleContext False True) noProps) = Some 1 \<and>
   observe clearedTextures (create sampleExternals (sampleContext False True) noProps)
     (render None [sampleDrawable True False True] ''color'' False False True
        (create sampleExternals (sampleContext False True) noProps)) =
     Inr [(0, (0, 0, 0, 1))] \<and>
   observe clearedTextures (create sampleExternals (sampleContext True True) noProps)
     (render None [sampleDrawable True False True] ''color'' False False True
        (create sampleExternals (sampleContext True True) noProps)) =
     Inr [(0, (0, 0, 0, 1)), (1, (0, 0, 0, 1))]"
proof -
  let ?s0 = "create sampleExternals (sampleContext False True) noProps"
  let ?s1 = "create sampleExternals (sampleContext True True) noProps"
  have a: "wboitATexture ?s0 = Some 0" "wboitBTexture ?s0 = Some 1" "enableWboit ?s0"
    "wboitFramebuffers ?s0 = 2 # [3, 4]"
    by (simp_all add: create_with_wboit sampleContext_fields)
  have t0: "drawTargets (bindFramebuffer (Some 2) (ctx ?s0)) = [0]"
    using create_with_wboit(7) [of "sampleContext False True" sampleExternals noProps]
    by (simp add: sampleContext_fields numeral_2_eq_2)
  have b: "enableWboit ?s1" "wboitFramebuffers ?s1 = 2 # [3]"
    by (simp_all add: create_with_wboit sampleContext_fields)
  have t1: "drawTargets (bindFramebuffer (Some 2) (ctx ?s1)) = [0, 1]"
    using create_with_wboit(7) [of "sampleContext True True" sampleExternals noProps]
    by (simp add: sampleContext_fields numeral_2_eq_2)
  have col: "isColor ''color''" by (simp add: isColor_def)
  show ?thesis
    using a(1,2) render_subpass_cleared [OF a(3) col a(4), of None "[sampleDrawable True False True]" False]
      render_subpass_cleared [OF b(1) col b(2), of None "[sampleDrawable True False True]" False]
    by (simp add: t0 t1)
qed

subsection \<open>C4 on every renderer: where the accumulation textures are attached\<close>

lemma create_attached: "attached c0 (create ex c0 pr)"
  by (cases "textureFloat c0 \<and> colorBufferFloat c0 \<and> depthTexture c0"; cases "drawBuffers c0")
     (simp_all add: attached_def create_simps drawTargets_def)

lemma renderPaths_attachments:
  "fbAttach (renderWboitOpaque v rs c) = fbAttach c"
  "fbDrawBufs (renderWboitOpaque v rs c) = fbDrawBufs c"
  "fbAttach (renderBlended v rs c) = fbAttach c"
  "fbDrawBufs (renderBlended v rs c) = fbDrawBufs c"
  "fbAttach (renderPickDepth rtr v rs c) = fbAttach c"
  "fbDrawBufs (renderPickDepth rtr v rs c) = fbDrawBufs c"
  "fbAttach (renderWboitTransparent f0 rt ev v rs c) = fbAttach c"
  "fbDrawBufs (renderWboitTransparent f0 rt ev v rs c) = fbDrawBufs c"
  by (simp_all add: renderWboitOpaque_def renderBlended_def renderPickDepth_def
      renderWboitTransparent_def Let_def gl_ops glClear_def renderLoop_ctx
      split: option.splits prod.splits)

lemma render_attachments:
  assumes "render rt rs v clr tb rtr s = Inr s'"
  shows "fbAttach (ctx s') = fbAttach (ctx s)" and "fbDrawBufs (ctx s') = fbDrawBufs (ctx s)"
  using assms
  by (auto simp: render_def Let_def glFlush_def renderPaths_attachments renderBegin_ctx
      split: if_splits list.splits)

lemma drawTargets_cong:
  assumes "fbAttach c' = fbAttach c" and "fbDrawBufs c' = fbDrawBufs c"
  shows "drawTargets (bindFramebuffer fb c') = drawTargets (bindFramebuffer fb c)"
  using assms by (simp add: drawTargets_def bindFramebuffer_def split: option.splits)

lemma attached_cong:
  assumes "attached c0 s"
    and "wboitFramebuffers s' = wboitFramebuffers s"
    and "wboitATexture s' = wboitATexture s"
    and "wboitBTexture s' = wboitBTexture s"
    and "drawBuffers (ctx s') = drawBuffers (ctx s)"
    and "fbAttach (ctx s') = fbAttach (ctx s)"
    and "fbDrawBufs (ctx s') = fbDrawBufs (ctx s)"
  shows "attached c0 s'"
proof -
  have "drawTargets (bindFramebuffer fb (ctx s')) = drawTargets (bindFramebuffer fb (ctx s))" for fb
    by (rule drawTargets_cong [OF assms(6,7)])
  with assms(1-5) show ?thesis
    by (cases "wboitFramebuffers s") (simp_all add: attached_def)
qed

lemma render_keeps:
  assumes "render rt rs v clr tb rtr s = Inr s'"
  shows "wboitFramebuffers s' = wboitFramebuffers s \<and> wboitATexture s' = wboitATexture s \<and>
    wboitBTexture s' = wboitBTexture s \<and> drawBuffers (ctx s') = drawBuffers (ctx s)"
  by (rule render_cases [OF assms]) simp

lemma render_attached:
  assumes "attached c0 s" and "render rt rs v clr tb rtr s = Inr s'"
  shows "attached c0 s'"
  by (rule attached_cong [OF assms(1)])
     (simp_all add: render_keeps [OF assms(2)] render_attachments [OF assms(2)])

lemma setProps_fields:
  "ctx (setProps ex pr s) = ctx s"
  "wboitFramebuffers (setProps ex pr s) = wboitFramebuffers s"
  "wboitATexture (setProps ex pr s) = wboitATexture s"
  "wboitBTexture (setProps ex pr s) = wboitBTexture s"
  by (simp_all add: setProps_def Let_def split: option.splits)

lemma setProps_attached:
  assumes "attached c0 s"
  shows "attached c0 (setProps ex pr s)"
  by (rule attached_cong [OF assms]) (simp_all add: setProps_fields)

lemma clear_attached:
  assumes "attached c0 s"
  shows "attached c0 (clear tb s)"
  by (rule attached_cong [OF assms])
     (simp_all add: clear_def Let_def gl_ops glClear_def split: prod.splits)

lemma viewport_fields:
  "drawBuffers (glViewport r c) = drawBuffers c"
  "drawBuffers (glScissor r c) = drawBuffers c"
  "nextId (glViewport r c) = nextId c"
  "nextId (glScissor r c) = nextId c"
  "fbAttach (glViewport r c) = fbAttach c"
  "fbAttach (glScissor r c) = fbAttach c"
  "fbDrawBufs (glViewport r c) = fbDrawBufs c"
  "fbDrawBufs (glScissor r c) = fbDrawBufs c"
  by (simp_all add: glViewport_def glScissor_def)

text \<open>The draw targets of a fresh framebuffer after the textures were attached.\<close>

lemma wboit_targets_multi:
  assumes "fbAttach c f = (\<lambda>_. None)"
  shows "drawTargets (bindFramebuffer (Some f)
      (attachFramebuffer tb f COLOR_ATTACHMENT1
        (attachFramebuffer ta f COLOR_ATTACHMENT0
          (setDrawBuffers [COLOR_ATTACHMENT0, COLOR_ATTACHMENT1] (bindFramebuffer (Some f) c))))) =
    List.map_filter id [ta, tb]"
  using assms
  by (cases ta; cases tb)
     (simp_all add: drawTargets_def attachFramebuffer_def setDrawBuffers_def bindFramebuffer_def
       List.map_filter_simps)

lemma wboit_targets_single:
  assumes "fbAttach c f = (\<lambda>_. None)" and "fbDrawBufs c f = [COLOR_ATTACHMENT0]" and "f1 \<noteq> f"
  shows "drawTargets (bindFramebuffer (Some f)
      (attachFramebuffer tb f1 COLOR_ATTACHMENT0 (attachFramebuffer ta f COLOR_ATTACHMENT0 c))) =
    List.map_filter id [ta]"
  using assms
  by (cases ta; cases tb)
     (simp_all add: drawTargets_def attachFramebuffer_def bindFramebuffer_def
       List.map_filter_simps)

lemma setViewport_multi:
  assumes "viewportChanged x y w h (viewport s)" and "drawBuffers (ctx s)"
    and "wboitFramebuffers s = old0 # rest"
  shows "setViewport x y w h s =
    Inr (s\<lparr>viewport := (x, y, w, h), uViewportHeight := h, uViewport := (x, y, w, h),
           wboitFramebuffers := [nextId (ctx s)],
           ctx := attachFramebuffer (wboitBTexture s) (nextId (ctx s)) COLOR_ATTACHMENT1
             (attachFramebuffer (wboitATexture s) (nextId (ctx s)) COLOR_ATTACHMENT0
               (setDrawBuffers [COLOR_ATTACHMENT0, COLOR_ATTACHMENT1]
                 (bindFramebuffer (Some (nextId (ctx s)))
                   (snd (newFramebuffer (destroyFramebuffer old0
                     (defineTexture (wboitBTexture s) w h (defineTexture (wboitATexture s) w h
                       (glScissor (x, y, w, h) (glViewport (x, y, w, h) (ctx s))))))))))) \<rparr>)"
  using assms
  by (simp add: setViewport_def Let_def case_prod_beta op_fields newFramebuffer_fields
      viewport_fields)

lemma setViewport_single:
  assumes "viewportChanged x y w h (viewport s)" and "\<not> drawBuffers (ctx s)"
    and "wboitFramebuffers s = old0 # old1 # rest"
  shows "setViewport x y w h s =
    Inr (s\<lparr>viewport := (x, y, w, h), uViewportHeight := h, uViewport := (x, y, w, h),
           wboitFramebuffers := [nextId (ctx s), Suc (nextId (ctx s))],
           ctx := attachFramebuffer (wboitBTexture s) (Suc (nextId (ctx s))) COLOR_ATTACHMENT0
             (attachFramebuffer (wboitATexture s) (nextId (ctx s)) COLOR_ATTACHMENT0
               (snd (newFramebuffer (snd (newFramebuffer
                 (destroyFramebuffer old1 (destroyFramebuffer old0
                   (defineTexture (wboitBTexture s) w h (defineTexture (wboitATexture s) w h
                     (glScissor (x, y, w, h) (glViewport (x, y, w, h) (ctx s)))))))))))) \<rparr>)"
  using assms
  by (simp add: setViewport_def Let_def case_prod_beta op_fields newFramebuffer_fields
      viewport_fields)

lemma setViewport_attached:
  assumes "attached c0 s" and "setViewport x y w h s = Inr s'"
  shows "attached c0 s'"
proof (cases rule: setViewport_cases [OF assms(2)])
  case 1
  show ?thesis
    by (rule attached_cong [OF assms(1)]) (simp_all add: 1 gl_ops)
next
  case (2 old0 rest)
  let ?c = "snd (newFramebuffer (destroyFramebuffer old0
      (defineTexture (wboitBTexture s) w h (defineTexture (wboitATexture s) w h
        (glScissor (x, y, w, h) (glViewport (x, y, w, h) (ctx s)))))))"
  have fresh: "fbAttach ?c (nextId (ctx s)) = (\<lambda>_. None)"
    by (simp add: newFramebuffer_fields op_fields viewport_fields)
  from assms(2) setViewport_multi [OF 2(1,2,3)]
  have s': "ctx s' = attachFramebuffer (wboitBTexture s) (nextId (ctx s)) COLOR_ATTACHMENT1
             (attachFramebuffer (wboitATexture s) (nextId (ctx s)) COLOR_ATTACHMENT0
               (setDrawBuffers [COLOR_ATTACHMENT0, COLOR_ATTACHMENT1]
                 (bindFramebuffer (Some (nextId (ctx s))) ?c)))"
    by auto
  have "drawTargets (bindFramebuffer (Some (nextId (ctx s))) (ctx s')) =
      List.map_filter id [wboitATexture s, wboitBTexture s]"
    unfolding s' by (rule wboit_targets_multi [OF fresh])
  with assms(1) 2 setViewport_keeps [OF assms(2)] show ?thesis
    by (simp add: attached_def)
next
  case (3 old0 old1 rest)
  let ?c = "snd (newFramebuffer (snd (newFramebuffer
      (destroyFramebuffer old1 (destroyFramebuffer old0
        (defineTexture (wboitBTexture s) w h (defineTexture (wboitATexture s) w h
          (glScissor (x, y, w, h) (glViewport (x, y, w, h) (ctx s))))))))))"
  have fresh: "fbAttach ?c (nextId (ctx s)) = (\<lambda>_. None)"
    "fbDrawBufs ?c (nextId (ctx s)) = [COLOR_ATTACHMENT0]"
    by (simp_all add: newFramebuffer_fields op_fields viewport_fields)
  from assms(2) setViewport_single [OF 3(1,2,3)]
  have s': "ctx s' = attachFramebuffer (wboitBTexture s) (Suc (nextId (ctx s))) COLOR_ATTACHMENT0
             (attachFramebuffer (wboitATexture s) (nextId (ctx s)) COLOR_ATTACHMENT0 ?c)"
    by auto
  have "drawTargets (bindFramebuffer (Some (nextId (ctx s))) (ctx s')) =
      List.map_filter id [wboitATexture s]"
    unfolding s' by (rule wboit_targets_single [OF fresh]) simp
  with assms(1) 3 setViewport_keeps [OF assms(2)] show ?thesis
    by (simp add: attached_def)
qed

lemma doCalls_attached:
  assumes "attached c0 s" and "doCalls ex ks s = Inr s'"
  shows "attached c0 s'"
  using assms
proof (induction ks arbitrary: s)
  case Nil
  then show ?case by simp
next
  case (Cons k ks)
  from Cons.prems(2) obtain s1 where k: "doCall ex k s = Inr s1" and ks: "doCalls ex ks s1 = Inr s'"
    by (auto split: sum.splits)
  have "attached c0 s1"
    using Cons.prems(1) k
    by (cases k)
       (auto simp: dispose_def
         intro: render_attached setProps_attached clear_attached setViewport_attached)
  from Cons.IH [OF this ks] show ?case .
qed

text \<open>
  What the sample of C4 shows holds after any sequence of calls on any renderer
  created with the three capabilities: the accumulation pass of the transparent
  sub-pass clears both accumulation textures with multi-draw-buffer support, and only
  the first of them without it.
\<close>

lemma reached_subpass_cleared:
  assumes "doCalls ex ks (create ex c0 pr) = Inr s"
    and "textureFloat c0" and "colorBufferFloat c0" and "depthTexture c0"
  shows "wboitATexture s = Some (nextId c0)"
    and "wboitBTexture s = Some (Suc (nextId c0))"
    and "observe clearedTextures s (render rt rs ''color'' False tb True s) =
      Inr (if drawBuffers c0
           then [(nextId c0, (0, 0, 0, 1)), (Suc (nextId c0), (0, 0, 0, 1))]
           else [(nextId c0, (0, 0, 0, 1))])"
proof -
  have est: "established ex c0 s"
    by (rule doCalls_established [OF create_established assms(1)])
  have att: "attached c0 s"
    by (rule doCalls_attached [OF create_attached assms(1)])
  from att assms(2-4) show a: "wboitATexture s = Some (nextId c0)"
    and b: "wboitBTexture s = Some (Suc (nextId c0))"
    by (simp_all add: attached_def)
  from est assms(2-4) have en: "enableWboit s" and db: "drawBuffers (ctx s) = drawBuffers c0"
    by (simp_all add: established_def)
  from att obtain f0 fs where fbs: "wboitFramebuffers s = f0 # fs"
    and t: "drawTargets (bindFramebuffer (Some f0) (ctx s)) =
      List.map_filter id
        (if drawBuffers (ctx s) then [wboitATexture s, wboitBTexture s] else [wboitATexture s])"
    by (auto simp: attached_def split: list.splits)
  have col: "isColor ''color''" by (simp add: isColor_def)
  show "observe clearedTextures s (render rt rs ''color'' False tb True s) =
      Inr (if drawBuffers c0
           then [(nextId c0, (0, 0, 0, 1)), (Suc (nextId c0), (0, 0, 0, 1))]
           else [(nextId c0, (0, 0, 0, 1))])"
    using render_subpass_cleared [OF en col fbs, of rt rs tb]
    by (simp add: t a b db List.map_filter_simps)
qed

end
